theory Spec2Isabelle
  imports Main "HOL-Library.Sublist" "HOL-Library.Word"
begin

section \<open>Listing Lens: job lifecycle and session staging\<close>

text \<open>
  A shallow embedding of the serverless handlers of the repository:
  \<^item> \<^verbatim>\<open>netlify/functions/report-status.js\<close> (status polling),
  \<^item> \<^verbatim>\<open>netlify/functions/generate-report.js\<close> (dispatcher),
  \<^item> \<^verbatim>\<open>netlify/functions/generate-report-background.js\<close> (report worker, and the
    Upstash store library that the same file carries: \<^verbatim>\<open>checkRateLimit\<close>),
  \<^item> the upload handler (session identifiers and its use of the rate limiter).

  Strings are \<^typ>\<open>string\<close>. Every exception of the source is a value: a fallible call
  returns \<open>string + 'a\<close>, \<open>Inl\<close> carrying \<^verbatim>\<open>err.message\<close>.
\<close>

subsection \<open>JSON values and the blob store\<close>

text \<open>
  A JSON object is a list of fields in the order the source writes them. \<open>JDate t\<close> is
  the string \<^verbatim>\<open>new Date(t).toISOString()\<close> of the instant \<open>t\<close> (milliseconds since the
  epoch); \<open>JStr\<close> is any other string (one that spells neither a date nor a number).
\<close>

datatype jval = JStr string | JNum int | JDate int | JNull

type_synonym json = "(string \<times> jval) list"

datatype content = Json json | Binary string

record entry =
  content :: content
  mimeType :: "string option"

text \<open>The entry \<^verbatim>\<open>setJSON\<close> stores for a JSON value.\<close>

definition json_entry :: "json \<Rightarrow> entry" where
  "json_entry j = \<lparr>content = Json j, mimeType = None\<rparr>"

text \<open>
  The store of \<^verbatim>\<open>@netlify/blobs\<close>: a map from keys to entries. The source wraps its
  store calls in \<^verbatim>\<open>try/catch\<close>; the calls that throw are given by the store's fault
  predicates, one per kind of call and key. \<open>configured\<close> is false when \<^verbatim>\<open>getStore\<close>
  itself throws.
\<close>

record store =
  blobs :: "string \<rightharpoonup> entry"
  configured :: bool
  get_fails :: "string \<Rightarrow> bool"
  meta_fails :: "string \<Rightarrow> bool"
  set_fails :: "string \<Rightarrow> bool"
  delete_fails :: "string \<Rightarrow> bool"

definition getStore :: "store \<Rightarrow> string + store" where
  "getStore st = (if configured st then Inr st else Inl ''store not configured'')"

definition store_get_json :: "store \<Rightarrow> string \<Rightarrow> string + json option" where
  "store_get_json st k =
     (if get_fails st k then Inl ''store get failed''
      else case blobs st k of
             None \<Rightarrow> Inr None
           | Some e \<Rightarrow> (case content e of
                         Json j \<Rightarrow> Inr (Some j)
                       | Binary b \<Rightarrow> Inl ''not valid JSON''))"

definition store_get_arrayBuffer :: "store \<Rightarrow> string \<Rightarrow> string + content option" where
  "store_get_arrayBuffer st k =
     (if get_fails st k then Inl ''store get failed''
      else Inr (map_option content (blobs st k)))"

definition store_getMetadata :: "store \<Rightarrow> string \<Rightarrow> string + string option option" where
  "store_getMetadata st k =
     (if meta_fails st k then Inl ''store getMetadata failed''
      else Inr (map_option mimeType (blobs st k)))"

definition store_setJSON :: "store \<Rightarrow> string \<Rightarrow> json \<Rightarrow> string + store" where
  "store_setJSON st k j =
     (if set_fails st k then Inl ''store set failed''
      else Inr (st\<lparr>blobs := (blobs st)(k \<mapsto> json_entry j)\<rparr>))"

definition store_delete :: "store \<Rightarrow> string \<Rightarrow> string + store" where
  "store_delete st k =
     (if delete_fails st k then Inl ''store delete failed''
      else Inr (st\<lparr>blobs := (blobs st)(k := None)\<rparr>))"

definition job_key :: "string \<Rightarrow> string" where
  "job_key jid = ''job/'' @ jid"

definition meta_key :: "string \<Rightarrow> string" where
  "meta_key sid = sid @ ''/meta''"

text \<open>JavaScript truthiness of an optional string: absent and empty are falsy.\<close>

definition falsy :: "string option \<Rightarrow> bool" where
  "falsy s = (s = None \<or> s = Some [])"

subsection \<open>HTTP responses\<close>

datatype body = Empty | Obj json

record response =
  statusCode :: nat
  body :: body

text \<open>The job records the handlers write under \<^verbatim>\<open>job/<jobId>\<close>.\<close>

definition queued_record :: "int \<Rightarrow> json" where
  "queued_record t = [(''status'', JStr ''queued''), (''queuedAt'', JDate t)]"

definition processing_record :: "int \<Rightarrow> json" where
  "processing_record t = [(''status'', JStr ''processing''), (''startedAt'', JDate t)]"

definition complete_record :: "string \<Rightarrow> string \<Rightarrow> int \<Rightarrow> json" where
  "complete_record reportId html t =
     [(''status'', JStr ''complete''), (''reportId'', JStr reportId), (''html'', JStr html),
      (''completedAt'', JDate t)]"

subsection \<open>Status polling: report-status.js\<close>

record status_event =
  httpMethod :: string
  jobId_param :: "string option"

definition field :: "json \<Rightarrow> string \<Rightarrow> jval option" where
  "field j name = map_of j name"

text \<open>
  \<^verbatim>\<open>exports.handler\<close> of report-status.js. It returns the response and the store it
  leaves behind.
\<close>

definition report_status :: "status_event \<Rightarrow> store \<Rightarrow> response \<times> store" where
  "report_status ev st =
     (if httpMethod ev = ''OPTIONS'' then (\<lparr>statusCode = 200, body = Empty\<rparr>, st)
      else if falsy (jobId_param ev)
        then (\<lparr>statusCode = 400, body = Obj [(''error'', JStr ''jobId required'')]\<rparr>, st)
      else case getStore st of
        Inl msg \<Rightarrow>
          (\<lparr>statusCode = 500,
            body = Obj [(''status'', JStr ''error''), (''error'', JStr msg)]\<rparr>, st)
      | Inr s \<Rightarrow>
          (let key = job_key (the (jobId_param ev));
               job = (case store_get_json s key of Inl _ \<Rightarrow> None | Inr r \<Rightarrow> r)
           in case job of
                None \<Rightarrow>
                  (\<lparr>statusCode = 200, body = Obj [(''status'', JStr ''processing'')]\<rparr>, s)
              | Some j \<Rightarrow>
                  (let s' = (if field j ''status'' = Some (JStr ''complete'')
                                \<or> field j ''status'' = Some (JStr ''error'')
                             then (case store_delete s key of Inl _ \<Rightarrow> s | Inr d \<Rightarrow> d)
                             else s)
                   in (\<lparr>statusCode = 200, body = Obj j\<rparr>, s'))))"

text \<open>The statuses after which the endpoint deletes the record.\<close>

definition terminal :: "json \<Rightarrow> bool" where
  "terminal j =
     (field j ''status'' = Some (JStr ''complete'') \<or> field j ''status'' = Some (JStr ''error''))"

subsection \<open>JavaScript string primitives\<close>

text \<open>
  A character is a UTF-16 code unit below 256. \<^verbatim>\<open>substring\<close> clamps both
  bounds to the string and swaps them when the first is the larger; \<^verbatim>\<open>indexOf\<close> and
  \<^verbatim>\<open>lastIndexOf\<close> return \<open>-1\<close> when the pattern does not occur. \<^verbatim>\<open>toUpperCase\<close> is
  given on the letters a to z, which is all a base-36 rendering holds; \<^verbatim>\<open>trim\<close> removes
  the white space among these code units (tab, line feed, vertical tab, form feed,
  carriage return, space, no-break space).
\<close>

definition js_substring :: "string \<Rightarrow> int \<Rightarrow> int \<Rightarrow> string" where
  "js_substring s a b =
     (let n = int (length s);
          a' = min (max a 0) n;
          b' = min (max b 0) n;
          lo = min a' b';
          hi = max a' b'
      in take (nat (hi - lo)) (drop (nat lo) s))"

fun indexOf :: "string \<Rightarrow> string \<Rightarrow> int" where
  "indexOf [] p = (if p = [] then 0 else - 1)"
| "indexOf (x # xs) p =
     (if prefix p (x # xs) then 0
      else (let r = indexOf xs p in if r = - 1 then - 1 else r + 1))"

fun lastIndexOf :: "string \<Rightarrow> string \<Rightarrow> int" where
  "lastIndexOf [] p = (if p = [] then 0 else - 1)"
| "lastIndexOf (x # xs) p =
     (let r = lastIndexOf xs p
      in if r \<noteq> - 1 then r + 1 else if prefix p (x # xs) then 0 else - 1)"

definition upper_char :: "char \<Rightarrow> char" where
  "upper_char c =
     (let n = (of_char c :: nat) in if 97 \<le> n \<and> n \<le> 122 then char_of (n - 32) else c)"

definition toUpperCase :: "string \<Rightarrow> string" where
  "toUpperCase s = map upper_char s"

definition is_space :: "char \<Rightarrow> bool" where
  "is_space c = ((of_char c :: nat) \<in> {9, 10, 11, 12, 13, 32, 160})"

definition trim :: "string \<Rightarrow> string" where
  "trim s = rev (dropWhile is_space (rev (dropWhile is_space s)))"

definition digit_char :: "nat \<Rightarrow> char" where
  "digit_char n = char_of (48 + n mod 10)"

function show_nat :: "nat \<Rightarrow> string" where
  "show_nat n = (if n < 10 then [digit_char n] else show_nat (n div 10) @ [digit_char n])"
  by pat_completeness auto
termination
  by (relation "measure id") auto

declare show_nat.simps [simp del]

definition show_int :: "int \<Rightarrow> string" where
  "show_int i = (if i < 0 then CHR ''-'' # show_nat (nat (- i)) else show_nat (nat i))"

definition asset_key :: "string \<Rightarrow> nat \<Rightarrow> string" where
  "asset_key sid i = sid @ ''/screenshot-'' @ show_nat i"

subsection \<open>Identifiers: crypto.randomUUID().replace(/-/g, '').substring(0, 16)\<close>

text \<open>
  \<^verbatim>\<open>crypto.randomUUID\<close> is Node's: 128 random bits, the version and variant bits of
  RFC 4122 set, printed as lowercase hexadecimal in groups of 8-4-4-4-12.
\<close>

unbundle bit_operations_syntax

definition hex_digit :: "nat \<Rightarrow> char" where
  "hex_digit n = ''0123456789abcdef'' ! (n mod 16)"

definition hex_byte :: "8 word \<Rightarrow> string" where
  "hex_byte b = [hex_digit (unat b div 16), hex_digit (unat b mod 16)]"

definition uuid_bytes :: "128 word \<Rightarrow> 8 word list" where
  "uuid_bytes r =
     (let bs = map (\<lambda>i. (ucast (drop_bit (8 * (15 - i)) r) :: 8 word)) [0..<16]
      in bs[6 := (bs ! 6 AND 0x0f) OR 0x40, 8 := (bs ! 8 AND 0x3f) OR 0x80])"

definition hex_group :: "8 word list \<Rightarrow> nat \<Rightarrow> nat \<Rightarrow> string" where
  "hex_group bs i j = concat (map hex_byte (take (j - i) (drop i bs)))"

definition randomUUID :: "128 word \<Rightarrow> string" where
  "randomUUID r =
     (let bs = uuid_bytes r
      in hex_group bs 0 4 @ ''-'' @ hex_group bs 4 6 @ ''-'' @ hex_group bs 6 8 @ ''-''
           @ hex_group bs 8 10 @ ''-'' @ hex_group bs 10 16)"

text \<open>The UUID without its dashes: what \<^verbatim>\<open>replace(/-/g, '')\<close> leaves.\<close>

definition undashed :: "128 word \<Rightarrow> string" where
  "undashed r =
     (let bs = uuid_bytes r
      in hex_group bs 0 4 @ hex_group bs 4 6 @ hex_group bs 6 8 @ hex_group bs 8 10
           @ hex_group bs 10 16)"

definition mint_id :: "128 word \<Rightarrow> string" where
  "mint_id r = js_substring (filter (\<lambda>c. c \<noteq> CHR ''-'') (randomUUID r)) 0 16"

definition is_lower_hex :: "char \<Rightarrow> bool" where
  "is_lower_hex c = (c \<in> set ''0123456789abcdef'')"

subsection \<open>Dispatcher: generate-report.js\<close>

record request_body =
  sessionId :: "string option"
  paymentIntentId :: "string option"
  jobId :: "string option"

text \<open>
  \<open>d_body = None\<close> is a body that \<^verbatim>\<open>JSON.parse\<close> rejects. The two clock readings are
  the two \<^verbatim>\<open>new Date()\<close> of the handler, in the order it takes them.
\<close>

record dispatch_event =
  d_method :: string
  d_body :: "request_body option"
  d_proto :: "string option"
  d_host :: "string option"

record dispatch_env =
  t_check :: int
  t_queued :: int
  uuid_random :: "128 word"

record fired_request =
  url :: string
  payload :: request_body

text \<open>
  \<^verbatim>\<open>new Date(v)\<close> as an instant, \<open>None\<close> being the invalid date, which compares false
  with everything.
\<close>

definition date_of :: "jval option \<Rightarrow> int option" where
  "date_of v = (case v of
                  Some (JDate t) \<Rightarrow> Some t
                | Some (JNum n) \<Rightarrow> Some n
                | Some JNull \<Rightarrow> Some 0
                | Some (JStr s) \<Rightarrow> None
                | None \<Rightarrow> None)"

definition expired :: "int \<Rightarrow> json \<Rightarrow> bool" where
  "expired now m = (case date_of (field m ''expiresAt'') of Some e \<Rightarrow> e < now | None \<Rightarrow> False)"

definition session_expired_410 :: "string \<Rightarrow> response" where
  "session_expired_410 msg =
     \<lparr>statusCode = 410, body = Obj [(''error'', JStr ''Session expired''), (''message'', JStr msg)]\<rparr>"

definition start_failed_500 :: "string \<Rightarrow> response" where
  "start_failed_500 msg =
     \<lparr>statusCode = 500,
      body = Obj [(''error'', JStr ''Failed to start report generation''), (''message'', JStr msg)]\<rparr>"

definition bgUrl :: "dispatch_event \<Rightarrow> string" where
  "bgUrl ev =
     (if falsy (d_proto ev) then ''https'' else the (d_proto ev)) @ ''://''
       @ (case d_host ev of None \<Rightarrow> ''undefined'' | Some h \<Rightarrow> h)
       @ ''/.netlify/functions/generate-report-background''"

text \<open>
  \<^verbatim>\<open>exports.handler\<close> of generate-report.js: the response, the store afterwards, and
  the request fired at the background function, if any. The \<^verbatim>\<open>fetch\<close> is not awaited
  and its failure is only logged, so nothing of the worker's run enters the response.
\<close>

definition generate_report ::
  "dispatch_env \<Rightarrow> dispatch_event \<Rightarrow> store \<Rightarrow> response \<times> store \<times> fired_request option" where
  "generate_report env ev st =
     (if d_method ev = ''OPTIONS'' then (\<lparr>statusCode = 200, body = Empty\<rparr>, st, None)
      else if d_method ev \<noteq> ''POST''
        then (\<lparr>statusCode = 405, body = Obj [(''error'', JStr ''Method not allowed'')]\<rparr>, st, None)
      else case d_body ev of
        None \<Rightarrow> (start_failed_500 ''Unexpected token'', st, None)
      | Some b \<Rightarrow>
         (if falsy (sessionId b)
            then (\<lparr>statusCode = 400, body = Obj [(''error'', JStr ''sessionId required'')]\<rparr>, st, None)
          else case getStore st of
            Inl msg \<Rightarrow> (start_failed_500 msg, st, None)
          | Inr s \<Rightarrow>
             (let sid = the (sessionId b);
                  meta = (case store_get_json s (meta_key sid) of Inl _ \<Rightarrow> None | Inr m \<Rightarrow> m)
              in case meta of
                   None \<Rightarrow>
                     (session_expired_410
                        ''Your screenshots have been automatically deleted (15-minute limit). Please upload again.'',
                      s, None)
                 | Some m \<Rightarrow>
                     (if expired (t_check env) m
                        then (session_expired_410 ''Your session has expired. Please upload again.'',
                              (case store_delete s (meta_key sid) of Inl _ \<Rightarrow> s | Inr d \<Rightarrow> d),
                              None)
                      else (let jid = mint_id (uuid_random env)
                            in case store_setJSON s (job_key jid) (queued_record (t_queued env)) of
                                 Inl msg \<Rightarrow> (start_failed_500 msg, s, None)
                               | Inr s' \<Rightarrow>
                                   (\<lparr>statusCode = 202,
                                     body = Obj [(''jobId'', JStr jid), (''status'', JStr ''processing'')]\<rparr>,
                                    s',
                                    Some \<lparr>url = bgUrl ev,
                                          payload = \<lparr>sessionId = sessionId b,
                                                     paymentIntentId = paymentIntentId b,
                                                     jobId = Some jid\<rparr>\<rparr>))))))"

subsection \<open>Dispatcher, earlier variant: the trigger that awaits the worker's answer\<close>

text \<open>
  What the variant's handler takes from outside: the random bits of \<^verbatim>\<open>crypto.randomUUID()\<close>
  and the outcome of the awaited \<^verbatim>\<open>fetch\<close> of the background function, which either
  rejects with a message or resolves with the status of the answer.
\<close>

record trigger_env =
  tr_uuid :: "128 word"
  tr_fetch :: "fired_request \<Rightarrow> string + nat"

definition trigger_failed_500 :: "string \<Rightarrow> response" where
  "trigger_failed_500 msg = \<lparr>statusCode = 500, body = Obj [(''error'', JStr msg)]\<rparr>"

text \<open>
  \<^verbatim>\<open>exports.handler\<close> of the trigger variant: the response, the store afterwards, and the
  request sent to the background function, if any. The handler reads the session
  metadata and writes nothing; it does not look at \<^verbatim>\<open>expiresAt\<close>; the \<^verbatim>\<open>fetch\<close> is awaited,
  so a rejected \<^verbatim>\<open>fetch\<close> is caught and answered with 500.
\<close>

definition generate_report_trigger ::
  "trigger_env \<Rightarrow> dispatch_event \<Rightarrow> store \<Rightarrow> response \<times> store \<times> fired_request option" where
  "generate_report_trigger env ev st =
     (if d_method ev = ''OPTIONS'' then (\<lparr>statusCode = 200, body = Empty\<rparr>, st, None)
      else if d_method ev \<noteq> ''POST''
        then (\<lparr>statusCode = 405, body = Obj [(''error'', JStr ''Method not allowed'')]\<rparr>, st, None)
      else case d_body ev of
        None \<Rightarrow> (trigger_failed_500 ''Unexpected token'', st, None)
      | Some b \<Rightarrow>
         (if falsy (sessionId b)
            then (\<lparr>statusCode = 400, body = Obj [(''error'', JStr ''sessionId required'')]\<rparr>, st, None)
          else case getStore st of
            Inl msg \<Rightarrow> (trigger_failed_500 msg, st, None)
          | Inr s \<Rightarrow>
             (let sid = the (sessionId b);
                  meta = (case store_get_json s (meta_key sid) of Inl _ \<Rightarrow> None | Inr m \<Rightarrow> m)
              in case meta of
                   None \<Rightarrow> (session_expired_410 ''Please re-upload your screenshots.'', s, None)
                 | Some m \<Rightarrow>
                     (let jid = mint_id (tr_uuid env);
                          req = \<lparr>url = bgUrl ev,
                                 payload = \<lparr>sessionId = sessionId b,
                                            paymentIntentId = paymentIntentId b,
                                            jobId = Some jid\<rparr>\<rparr>
                      in case tr_fetch env req of
                           Inl msg \<Rightarrow> (trigger_failed_500 msg, s, Some req)
                         | Inr bgStatus \<Rightarrow>
                             (\<lparr>statusCode = 202,
                               body = Obj [(''jobId'', JStr jid), (''status'', JStr ''processing'')]\<rparr>,
                              s, Some req)))))"

subsection \<open>Rate limiter: checkRateLimit over the Upstash REST API\<close>

text \<open>
  The Redis behind Upstash, as far as \<^verbatim>\<open>INCR\<close> and \<^verbatim>\<open>EXPIRE\<close> go: a counter with an
  optional deadline (in seconds); a key whose deadline has passed is gone. \<open>reachable\<close> is
  false when \<^verbatim>\<open>upstash\<close> throws (missing configuration or a failed request).
\<close>

record redis =
  counters :: "string \<rightharpoonup> int \<times> int option"
  reachable :: bool



definition live :: "redis \<Rightarrow> int \<Rightarrow> string \<Rightarrow> (int \<times> int option) option" where
  "live rs now k =
     (case counters rs k of
        None \<Rightarrow> None
      | Some (v, None) \<Rightarrow> Some (v, None)
      | Some (v, Some e) \<Rightarrow> (if e \<le> now then None else Some (v, Some e)))"













subsection \<open>Payment verification: verifyPayment\<close>

record intent =
  status :: string
  amount :: int
  currency :: string
  metadata :: "(string \<rightharpoonup> string) option"

text \<open>
  The payment provider: the intents it holds, and the message with which
  \<^verbatim>\<open>paymentIntents.retrieve\<close> or \<^verbatim>\<open>paymentIntents.update\<close> throws, if it does.
\<close>

record stripe =
  intents :: "string \<rightharpoonup> intent"
  retrieve_error :: "string option"
  update_error :: "string option"

definition paymentIntents_retrieve :: "stripe \<Rightarrow> string \<Rightarrow> string + intent" where
  "paymentIntents_retrieve sp pid =
     (case retrieve_error sp of
        Some msg \<Rightarrow> Inl msg
      | None \<Rightarrow> (case intents sp pid of
                   None \<Rightarrow> Inl (''No such payment_intent: '' @ pid)
                 | Some i \<Rightarrow> Inr i))"

definition paymentIntents_update :: "stripe \<Rightarrow> string \<Rightarrow> (string \<rightharpoonup> string) \<Rightarrow> string + stripe" where
  "paymentIntents_update sp pid md =
     (case update_error sp of
        Some msg \<Rightarrow> Inl msg
      | None \<Rightarrow> (case intents sp pid of
                   None \<Rightarrow> Inl (''No such payment_intent: '' @ pid)
                 | Some i \<Rightarrow> Inr (sp\<lparr>intents := (intents sp)(pid \<mapsto> i\<lparr>metadata := Some md\<rparr>)\<rparr>)))"

record verdict =
  valid :: bool
  reason :: "string option"

text \<open>The prior-use marker: \<^verbatim>\<open>intent.metadata && intent.metadata.report_generated === 'true'\<close>.\<close>

definition used :: "intent \<Rightarrow> bool" where
  "used i = (case metadata i of None \<Rightarrow> False | Some md \<Rightarrow> md ''report_generated'' = Some ''true'')"

definition mark_used :: "intent \<Rightarrow> (string \<rightharpoonup> string)" where
  "mark_used i = (case metadata i of None \<Rightarrow> Map.empty | Some md \<Rightarrow> md)(''report_generated'' \<mapsto> ''true'')"

text \<open>
  \<^verbatim>\<open>verifyPayment\<close> of generate-report-background.js; \<open>beta\<close> is
  \<^verbatim>\<open>process.env.BETA_MODE === 'true'\<close>.
\<close>

definition verifyPayment :: "bool \<Rightarrow> stripe \<Rightarrow> string option \<Rightarrow> verdict \<times> stripe" where
  "verifyPayment beta sp pid =
     (if beta then (\<lparr>valid = True, reason = None\<rparr>, sp)
      else if falsy pid then (\<lparr>valid = False, reason = Some ''No payment intent ID''\<rparr>, sp)
      else case paymentIntents_retrieve sp (the pid) of
        Inl msg \<Rightarrow> (\<lparr>valid = False, reason = Some msg\<rparr>, sp)
      | Inr i \<Rightarrow>
         (if status i \<noteq> ''succeeded''
            then (\<lparr>valid = False, reason = Some (''Payment status: '' @ status i)\<rparr>, sp)
          else if amount i \<notin> set [200, 500, 1000]
            then (\<lparr>valid = False, reason = Some (''Invalid amount: '' @ show_int (amount i))\<rparr>, sp)
          else if currency i \<noteq> ''aud''
            then (\<lparr>valid = False, reason = Some ''Wrong currency''\<rparr>, sp)
          else if used i
            then (\<lparr>valid = False, reason = Some ''Payment already used''\<rparr>, sp)
          else case paymentIntents_update sp (the pid) (mark_used i) of
                 Inl msg \<Rightarrow> (\<lparr>valid = False, reason = Some msg\<rparr>, sp)
               | Inr sp' \<Rightarrow> (\<lparr>valid = True, reason = None\<rparr>, sp')))"

text \<open>
  The copy of \<^verbatim>\<open>verifyPayment\<close> in the in-process variant of the worker
  (\<^verbatim>\<open>runReportGeneration\<close>): the same checks in the same order, with shorter reasons.
\<close>

definition verifyPayment_inline :: "bool \<Rightarrow> stripe \<Rightarrow> string option \<Rightarrow> verdict \<times> stripe" where
  "verifyPayment_inline beta sp pid =
     (if beta then (\<lparr>valid = True, reason = None\<rparr>, sp)
      else if falsy pid then (\<lparr>valid = False, reason = Some ''No payment intent ID''\<rparr>, sp)
      else case paymentIntents_retrieve sp (the pid) of
        Inl msg \<Rightarrow> (\<lparr>valid = False, reason = Some msg\<rparr>, sp)
      | Inr i \<Rightarrow>
         (if status i \<noteq> ''succeeded''
            then (\<lparr>valid = False, reason = Some ''Payment not succeeded''\<rparr>, sp)
          else if amount i \<notin> set [200, 500, 1000]
            then (\<lparr>valid = False, reason = Some ''Invalid amount''\<rparr>, sp)
          else if currency i \<noteq> ''aud''
            then (\<lparr>valid = False, reason = Some ''Wrong currency''\<rparr>, sp)
          else if used i
            then (\<lparr>valid = False, reason = Some ''Already used''\<rparr>, sp)
          else case paymentIntents_update sp (the pid) (mark_used i) of
                 Inl msg \<Rightarrow> (\<lparr>valid = False, reason = Some msg\<rparr>, sp)
               | Inr sp' \<Rightarrow> (\<lparr>valid = True, reason = None\<rparr>, sp')))"

text \<open>
  The provider states that verification produces: the marker is written only after the
  status, amount and currency checks, so an intent that carries it passes them.
\<close>

definition sound :: "stripe \<Rightarrow> bool" where
  "sound sp =
     (\<forall>p i. intents sp p = Some i \<and> used i \<longrightarrow>
            status i = ''succeeded'' \<and> amount i \<in> {200, 500, 1000} \<and> currency i = ''aud'')"

subsection \<open>Report identifier\<close>

text \<open>
  \<^verbatim>\<open>'LL-' + Math.random().toString(36).substring(2, 7).toUpperCase()\<close>. The argument is
  the string \<^verbatim>\<open>Math.random().toString(36)\<close>: \<^verbatim>\<open>"0"\<close> for zero, otherwise \<^verbatim>\<open>"0."\<close>
  followed by the base-36 digits that print the number (\<^verbatim>\<open>"0.i"\<close> for one half).
\<close>

definition mint_reportId :: "string \<Rightarrow> string" where
  "mint_reportId r36 = ''LL-'' @ toUpperCase (js_substring r36 2 7)"

definition is_base36 :: "char \<Rightarrow> bool" where
  "is_base36 c = (c \<in> set ''0123456789abcdefghijklmnopqrstuvwxyz'')"

definition is_upper_alnum :: "char \<Rightarrow> bool" where
  "is_upper_alnum c = (c \<in> set ''0123456789ABCDEFGHIJKLMNOPQRSTUVWXYZ'')"

text \<open>The pattern \<^verbatim>\<open>LL-[A-Z0-9]{5}\<close>, matched against the whole identifier.\<close>

definition is_report_id :: "string \<Rightarrow> bool" where
  "is_report_id s = (take 3 s = ''LL-'' \<and> length s = 8 \<and> list_all is_upper_alnum (drop 3 s))"

subsection \<open>Output normalization\<close>

definition fence :: string where
  "fence = replicate 3 (CHR 0x60)"

definition skip_newline :: "string \<Rightarrow> string" where
  "skip_newline r = (case r of [] \<Rightarrow> [] | c # cs \<Rightarrow> if c = CHR 0x0A then cs else r)"

text \<open>
  \<^verbatim>\<open>s.replace(/p\n?/g, '')\<close> for a literal \<open>p\<close>: one pass from the left, every match with
  its optional newline removed, the scan going on after the match.
\<close>

function replace_fence :: "string \<Rightarrow> string \<Rightarrow> string" where
  "replace_fence p [] = []"
| "replace_fence p (x # xs) =
     (if p \<noteq> [] \<and> prefix p (x # xs)
        then replace_fence p (skip_newline (drop (length p) (x # xs)))
      else x # replace_fence p xs)"
  by pat_completeness auto
termination
proof (relation "measure (\<lambda>(p, s). length s)")
  show "wf (measure (\<lambda>(p :: string, s :: string). length s))"
    by simp
next
  fix p :: string and x :: char and xs :: string
  assume a: "p \<noteq> [] \<and> prefix p (x # xs)"
  have shorter: "length (skip_newline r) \<le> length r" for r
    by (cases r) (simp_all add: skip_newline_def)
  from a have "length (drop (length p) (x # xs)) < length (x # xs)"
    by (cases p) simp_all
  with shorter [of "drop (length p) (x # xs)"]
  show "((p, skip_newline (drop (length p) (x # xs))), (p, x # xs))
          \<in> measure (\<lambda>(p, s). length s)"
    by simp
next
  fix p :: string and x :: char and xs :: string
  show "((p, xs), (p, x # xs)) \<in> measure (\<lambda>(p, s). length s)"
    by simp
qed

definition docStart_of :: "string \<Rightarrow> int" where
  "docStart_of h =
     (if indexOf h ''<!DOCTYPE html>'' \<noteq> - 1 then indexOf h ''<!DOCTYPE html>''
      else indexOf h ''<html'')"

definition docEnd_of :: "string \<Rightarrow> int" where
  "docEnd_of h = lastIndexOf h ''</html>''"

definition strip_fences :: "string \<Rightarrow> string" where
  "strip_fences t = trim (replace_fence fence (replace_fence (fence @ ''html'') t))"

definition normalize :: "string \<Rightarrow> string" where
  "normalize t =
     (let h = strip_fences t;
          docStart = docStart_of h;
          docEnd = docEnd_of h
      in if docStart \<noteq> - 1 \<and> docEnd \<noteq> - 1 then js_substring h docStart (docEnd + 7) else h)"

text \<open>The pattern \<open>p\<close> occurs in \<open>h\<close> at index \<open>j\<close>.\<close>

definition occurs_at :: "string \<Rightarrow> string \<Rightarrow> nat \<Rightarrow> bool" where
  "occurs_at p h j = (j \<le> length h \<and> prefix p (drop j h))"

text \<open>The document-start marker the worker looks for in \<open>h\<close>.\<close>

definition start_marker :: "string \<Rightarrow> string" where
  "start_marker h = (if indexOf h ''<!DOCTYPE html>'' \<noteq> - 1 then ''<!DOCTYPE html>'' else ''<html'')"

subsection \<open>Report worker: generate-report-background.js\<close>

definition VALID_CATEGORIES :: "string list" where
  "VALID_CATEGORIES = [''vehicle'', ''property'', ''electronics'', ''other'']"

record screenshot =
  base64 :: content
  shot_mimeType :: string

record gen_request =
  g_model :: string
  g_max_tokens :: nat
  g_system :: string
  g_images :: "screenshot list"
  g_text :: string

record block =
  b_type :: string
  b_text :: string

text \<open>
  What the worker reads from outside the store and the payment provider: the bypass
  flag, the prompt files (\<^verbatim>\<open>loadPrompt\<close>, \<open>None\<close> when no location has the file), its
  clock readings for \<^verbatim>\<open>startedAt\<close> and \<^verbatim>\<open>completedAt\<close>, the printed date, the printed
  random number, and the generation collaborator (\<open>Inl\<close> when the call throws).
\<close>

record worker_env =
  beta_mode :: bool
  loadPrompt :: "string \<Rightarrow> string option"
  t_started :: int
  t_completed :: int
  today :: string
  random36 :: string
  generate :: "gen_request \<Rightarrow> string + block list"

text \<open>
  The worker's state: the store, the payment provider, the job records it has written
  (oldest first), the request it sent to the generation collaborator, if any, and the
  keys it has asked the store to delete.
\<close>

record wstate =
  w_store :: store
  w_stripe :: stripe
  w_written :: "json list"
  w_request :: "gen_request option"
  w_deleted :: "string list"

definition setJobStatus :: "wstate \<Rightarrow> string \<Rightarrow> json \<Rightarrow> wstate" where
  "setJobStatus ws jid data =
     (case store_setJSON (w_store ws) (job_key jid) data of
        Inl _ \<Rightarrow> ws
      | Inr s \<Rightarrow> ws\<lparr>w_store := s, w_written := w_written ws @ [data]\<rparr>)"

definition job_error :: "string \<Rightarrow> json" where
  "job_error msg = [(''status'', JStr ''error''), (''error'', JStr msg)]"

definition em_dash :: string where
  "em_dash = [CHR 0xE2, CHR 0x80, CHR 0x94]"

text \<open>The message of the terminal error the worker writes when no asset could be fetched.\<close>

definition assets_expired :: json where
  "assets_expired = job_error (''Screenshots expired '' @ em_dash @ '' please re-upload.'')"

definition fetch_asset :: "store \<Rightarrow> string \<Rightarrow> nat \<Rightarrow> screenshot option" where
  "fetch_asset st sid i =
     (case store_get_arrayBuffer st (asset_key sid i) of
        Inl _ \<Rightarrow> None
      | Inr blob \<Rightarrow>
          (case store_getMetadata st (asset_key sid i) of
             Inl _ \<Rightarrow> None
           | Inr blobMeta \<Rightarrow>
               (case blob of
                  None \<Rightarrow> None
                | Some c \<Rightarrow>
                    Some \<lparr>base64 = c,
                          shot_mimeType = (case blobMeta of
                                             Some (Some m) \<Rightarrow> if m \<noteq> [] then m else ''image/jpeg''
                                           | _ \<Rightarrow> ''image/jpeg'')\<rparr>)))"

text \<open>The loop \<^verbatim>\<open>for (let i = 0; i < screenshotCount; i++)\<close>, from index \<open>i\<close> on.\<close>

function fetch_from :: "store \<Rightarrow> string \<Rightarrow> nat \<Rightarrow> nat \<Rightarrow> screenshot list" where
  "fetch_from st sid n i =
     (if i < n
        then (case fetch_asset st sid i of
                None \<Rightarrow> fetch_from st sid n (Suc i)
              | Some a \<Rightarrow> a # fetch_from st sid n (Suc i))
      else [])"
  by pat_completeness auto
termination
  by (relation "measure (\<lambda>(st, sid, n, i). n - i)") auto

declare fetch_from.simps [simp del]

text \<open>The loop bound read from the metadata: anything but a number runs the loop zero times.\<close>

definition count_of :: "jval option \<Rightarrow> nat" where
  "count_of v = (case v of Some (JNum n) \<Rightarrow> nat n | _ \<Rightarrow> 0)"

definition select_prompt :: "(string \<Rightarrow> string option) \<Rightarrow> string \<Rightarrow> string option" where
  "select_prompt load category =
     (let p0 = None;
          p1 = (if category = ''property'' then load ''combined-aus-property-v3.1.md'' else p0);
          p2 = (if category = ''vehicle'' then load ''combined-aus-vehicle-v3.1.md'' else p1);
          p3 = (if category = ''electronics'' then load ''combined-aus-electronics-v3.1.md'' else p2);
          p4 = (if category = ''other'' then load ''combined-aus-general-v3.1.md'' else p3)
      in if falsy p4 then load ''fast-universal-v1.md'' else p4)"

definition nl :: string where
  "nl = [CHR 0x0A]"

definition prompt_footer :: "string \<Rightarrow> string \<Rightarrow> nat \<Rightarrow> string \<Rightarrow> string" where
  "prompt_footer rid day k category =
     nl @ nl @ ''---'' @ nl @ ''Report ID: '' @ rid @ nl @ ''Date: '' @ day @ nl
       @ ''Screenshots: '' @ show_nat k @ nl @ ''Category: '' @ category @ nl @ nl
       @ ''Identify country/jurisdiction from screenshots and adapt all costs, laws, and buyer rights accordingly.''
       @ nl @ nl
       @ ''Output ONLY valid HTML starting with <!DOCTYPE html>. No markdown, no code fences.''"

definition delete_quiet :: "store \<Rightarrow> string \<Rightarrow> store" where
  "delete_quiet s k = (case store_delete s k of Inl _ \<Rightarrow> s | Inr d \<Rightarrow> d)"

definition cleanup_keys :: "string \<Rightarrow> nat \<Rightarrow> string list" where
  "cleanup_keys sid n = map (asset_key sid) [0..<n] @ [meta_key sid]"

definition cleanup :: "store \<Rightarrow> string \<Rightarrow> nat \<Rightarrow> store" where
  "cleanup s sid n = foldl delete_quiet s (cleanup_keys sid n)"

text \<open>The top-level \<^verbatim>\<open>catch\<close>: a last write of the error, itself best effort.\<close>

definition catch_all :: "wstate \<Rightarrow> string \<Rightarrow> string \<Rightarrow> wstate" where
  "catch_all ws jid msg =
     (case getStore (w_store ws) of
        Inl _ \<Rightarrow> ws
      | Inr _ \<Rightarrow> setJobStatus ws jid (job_error (if msg = [] then ''Unknown error'' else msg)))"

text \<open>The steps after the payment is accepted and the session metadata \<open>m\<close> is loaded.\<close>

definition generate_and_store ::
  "worker_env \<Rightarrow> wstate \<Rightarrow> string \<Rightarrow> string \<Rightarrow> json \<Rightarrow> wstate" where
  "generate_and_store env ws jid sid m =
     (case field m ''category'' of
        Some (JStr category) \<Rightarrow>
          (if category \<notin> set VALID_CATEGORIES then setJobStatus ws jid (job_error ''Invalid category'')
           else
             (let screenshotCount = count_of (field m ''screenshotCount'');
                  screenshots = fetch_from (w_store ws) sid screenshotCount 0
              in if length screenshots = 0
                   then setJobStatus ws jid assets_expired
                 else
                   (let systemPrompt = select_prompt (loadPrompt env) category
                    in if falsy systemPrompt
                         then setJobStatus ws jid (job_error ''Prompt configuration error'')
                       else
                         (let reportId = mint_reportId (random36 env);
                              req = \<lparr>g_model = ''claude-sonnet-4-6'',
                                     g_max_tokens = 8000,
                                     g_system = the systemPrompt
                                        @ prompt_footer reportId (today env) (length screenshots) category,
                                     g_images = screenshots,
                                     g_text = ''Analyse this '' @ category
                                        @ '' listing and generate the complete Listing Lens buyer intelligence report as standalone HTML.''\<rparr>;
                              ws1 = ws\<lparr>w_request := Some req\<rparr>
                          in case generate env req of
                               Inl msg \<Rightarrow> catch_all ws1 jid msg
                             | Inr blocks \<Rightarrow>
                                 (let reportHtml =
                                        normalize (concat (map b_text (filter (\<lambda>b. b_type b = ''text'') blocks)));
                                      ws2 = setJobStatus ws1 jid
                                              (complete_record reportId reportHtml (t_completed env))
                                  in ws2\<lparr>w_store := cleanup (w_store ws2) sid screenshotCount,
                                         w_deleted := cleanup_keys sid screenshotCount\<rparr>)))))
      | _ \<Rightarrow> setJobStatus ws jid (job_error ''Invalid category''))"

text \<open>
  The request the worker sends to the generation collaborator for the category \<open>cat\<close> and
  the fetched \<open>shots\<close>, as \<^const>\<open>generate_and_store\<close> builds it.
\<close>

definition generation_request :: "worker_env \<Rightarrow> string \<Rightarrow> screenshot list \<Rightarrow> gen_request" where
  "generation_request env cat shots =
     \<lparr>g_model = ''claude-sonnet-4-6'', g_max_tokens = 8000,
      g_system = the (select_prompt (loadPrompt env) cat)
         @ prompt_footer (mint_reportId (random36 env)) (today env) (length shots) cat,
      g_images = shots,
      g_text = ''Analyse this '' @ cat
         @ '' listing and generate the complete Listing Lens buyer intelligence report as standalone HTML.''\<rparr>"

text \<open>
  \<^verbatim>\<open>exports.handler\<close> of generate-report-background.js. Every path that returns
  answers 202; \<open>Inl\<close> is the one exception that escapes, from \<^verbatim>\<open>blobStore()\<close> before the
  \<^verbatim>\<open>try\<close>. \<open>None\<close> for the body is a body that \<^verbatim>\<open>JSON.parse\<close> rejects.
\<close>

definition background_handler ::
  "worker_env \<Rightarrow> request_body option \<Rightarrow> store \<Rightarrow> stripe \<Rightarrow> string + wstate" where
  "background_handler env ev st sp =
     (case getStore st of
        Inl msg \<Rightarrow> Inl msg
      | Inr s \<Rightarrow>
          Inr (let ws0 = \<lparr>w_store = s, w_stripe = sp, w_written = [], w_request = None,
                           w_deleted = []\<rparr>
               in case ev of
                    None \<Rightarrow> ws0
                  | Some b \<Rightarrow>
                      (if falsy (jobId b) \<or> falsy (sessionId b) then ws0
                       else
                         (let jid = the (jobId b);
                              sid = the (sessionId b);
                              ws1 = setJobStatus ws0 jid (processing_record (t_started env));
                              (payment, sp') = verifyPayment (beta_mode env) (w_stripe ws1) (paymentIntentId b);
                              ws2 = ws1\<lparr>w_stripe := sp'\<rparr>
                          in if \<not> valid payment
                               then setJobStatus ws2 jid
                                      (job_error (''Payment failed: ''
                                         @ (case reason payment of None \<Rightarrow> ''undefined'' | Some r \<Rightarrow> r)))
                             else
                               (case (case store_get_json (w_store ws2) (meta_key sid) of
                                        Inl _ \<Rightarrow> None | Inr m \<Rightarrow> m) of
                                  None \<Rightarrow>
                                    setJobStatus ws2 jid
                                      (job_error (''Session expired '' @ em_dash @ '' please re-upload.''))
                                | Some m \<Rightarrow> generate_and_store env ws2 jid sid m)))))"

subsection \<open>What a worker run may change in the store\<close>

definition same_faults :: "store \<Rightarrow> store \<Rightarrow> bool" where
  "same_faults s t =
     (configured s = configured t \<and> get_fails s = get_fails t \<and> meta_fails s = meta_fails t
      \<and> set_fails s = set_fails t \<and> delete_fails s = delete_fails t)"

text \<open>
  Before the cleanup the worker's store is the initial store with, at most, the job
  record replaced by the last record written.
\<close>

definition job_only :: "store \<Rightarrow> string \<Rightarrow> wstate \<Rightarrow> bool" where
  "job_only st jid ws =
     (w_deleted ws = [] \<and> same_faults (w_store ws) st \<and>
      (\<forall>k. blobs (w_store ws) k =
             (if k = job_key jid \<and> w_written ws \<noteq> [] then Some (json_entry (last (w_written ws)))
              else blobs st k)))"

text \<open>
  After it: the keys the worker asked to delete are gone where the store honours the
  delete, the job key holds the last record written, every other key is untouched, and
  the deleted keys are the session's cleanup keys.
\<close>

definition worker_frame :: "store \<Rightarrow> string \<Rightarrow> string \<Rightarrow> wstate \<Rightarrow> bool" where
  "worker_frame st jid sid ws =
     (same_faults (w_store ws) st \<and>
      (w_deleted ws = [] \<or> (\<exists>n. w_deleted ws = cleanup_keys sid n)) \<and>
      (\<forall>k. blobs (w_store ws) k =
             (if k \<in> set (w_deleted ws) \<and> \<not> delete_fails st k then None
              else if k = job_key jid \<and> w_written ws \<noteq> []
                then Some (json_entry (last (w_written ws)))
              else blobs st k)))"

subsection \<open>Timestamps of job records\<close>

text \<open>The timestamps a job record carries, in the order of its fields.\<close>

definition stamps :: "json \<Rightarrow> int list" where
  "stamps r =
     List.map_filter
       (\<lambda>(k, v). case v of
                    JDate t \<Rightarrow> if k \<in> set [''queuedAt'', ''startedAt'', ''completedAt''] then Some t
                               else None
                  | _ \<Rightarrow> None)
       r"

subsection \<open>Worked examples\<close>

text \<open>A store that is configured and never throws, holding the given blobs.\<close>

definition healthy :: "(string \<rightharpoonup> entry) \<Rightarrow> store" where
  "healthy m =
     \<lparr>blobs = m, configured = True, get_fails = (\<lambda>k. False), meta_fails = (\<lambda>k. False),
      set_fails = (\<lambda>k. False), delete_fails = (\<lambda>k. False)\<rparr>"

text \<open>
  A staged session of two recorded assets of which only the first is still in the
  store, a worker environment in bypass mode whose generation collaborator wraps a
  document in commentary, and the requests that go with them.
\<close>

definition demo_sid :: string where
  "demo_sid = ''fedcba9876543210''"

definition demo_jid :: string where
  "demo_jid = ''0123456789ab4def''"

definition demo_meta :: json where
  "demo_meta = [(''category'', JStr ''vehicle''), (''screenshotCount'', JNum 2),
                (''expiresAt'', JDate 900000)]"

definition demo_store :: store where
  "demo_store =
     healthy [meta_key demo_sid \<mapsto> json_entry demo_meta,
              asset_key demo_sid 0 \<mapsto> \<lparr>content = Binary ''JFIF'', mimeType = Some ''image/png''\<rparr>]"

definition demo_stripe :: stripe where
  "demo_stripe = \<lparr>intents = Map.empty, retrieve_error = None, update_error = None\<rparr>"

definition demo_env :: worker_env where
  "demo_env =
     \<lparr>beta_mode = True,
      loadPrompt = (\<lambda>f. if f = ''combined-aus-vehicle-v3.1.md'' then Some ''Vehicle prompt'' else None),
      t_started = 1000,
      t_completed = 2000,
      today = ''2 Nov 2026'',
      random36 = ''0.4fzyo82mvyr'',
      generate = (\<lambda>req. Inr [\<lparr>b_type = ''text'',
                                b_text = ''Here: <!DOCTYPE html><html></html> Done.''\<rparr>])\<rparr>"

definition demo_body :: request_body where
  "demo_body = \<lparr>sessionId = Some demo_sid, paymentIntentId = None, jobId = Some demo_jid\<rparr>"

definition demo_dispatch :: dispatch_event where
  "demo_dispatch =
     \<lparr>d_method = ''POST'',
      d_body = Some \<lparr>sessionId = Some demo_sid, paymentIntentId = None, jobId = None\<rparr>,
      d_proto = None, d_host = Some ''listinglens.example''\<rparr>"

definition demo_dispatch_env :: dispatch_env where
  "demo_dispatch_env = \<lparr>t_check = 500, t_queued = 501, uuid_random = 0x0123456789abcdef0123456789abcdef\<rparr>"

text \<open>The variant's surroundings: the same random bits, and a \<^verbatim>\<open>fetch\<close> that resolves or rejects.\<close>

definition demo_trigger_env :: "string + nat \<Rightarrow> trigger_env" where
  "demo_trigger_env r = \<lparr>tr_uuid = 0x0123456789abcdef0123456789abcdef, tr_fetch = (\<lambda>req. r)\<rparr>"

text \<open>
  A payment provider holding a succeeded, unused intent of five dollars, a second one
  that an earlier verification has marked as used, and a canceled one.
\<close>

definition demo_paid :: stripe where
  "demo_paid =
     \<lparr>intents = [''pi_1'' \<mapsto> \<lparr>status = ''succeeded'', amount = 500, currency = ''aud'',
                                metadata = None\<rparr>,
                  ''pi_2'' \<mapsto> \<lparr>status = ''succeeded'', amount = 500, currency = ''aud'',
                                metadata = Some [''report_generated'' \<mapsto> ''true'']\<rparr>,
                  ''pi_3'' \<mapsto> \<lparr>status = ''canceled'', amount = 500, currency = ''aud'',
                                metadata = None\<rparr>],
      retrieve_error = None, update_error = None\<rparr>"

definition demo_paid_body :: request_body where
  "demo_paid_body = \<lparr>sessionId = Some demo_sid, paymentIntentId = Some ''pi_1'', jobId = Some demo_jid\<rparr>"

section \<open>Properties\<close>

subsection \<open>Minted identifiers\<close>

lemma is_lower_hex_hex_digit: "is_lower_hex (hex_digit n)"
proof -
  have "n mod 16 < length ''0123456789abcdef''" by simp
  then have "''0123456789abcdef'' ! (n mod 16) \<in> set ''0123456789abcdef''"
    by (rule nth_mem)
  then show ?thesis by (simp only: is_lower_hex_def hex_digit_def)
qed

lemma hex_byte_hex: "list_all is_lower_hex (hex_byte b)"
  by (simp add: hex_byte_def is_lower_hex_hex_digit)

lemma length_hex_byte: "length (hex_byte b) = 2"
  by (simp add: hex_byte_def)

lemma length_uuid_bytes: "length (uuid_bytes r) = 16"
  by (simp add: uuid_bytes_def Let_def)

lemma concat_hex: "list_all is_lower_hex (concat (map hex_byte bs))"
  by (induction bs) (simp_all add: hex_byte_hex)

lemma length_concat_hex: "length (concat (map hex_byte bs)) = 2 * length bs"
  by (induction bs) (simp_all add: length_hex_byte)

lemma hex_group_hex: "list_all is_lower_hex (hex_group bs i j)"
  by (simp add: hex_group_def concat_hex)

lemma length_hex_group:
  "j \<le> length bs \<Longrightarrow> i \<le> j \<Longrightarrow> length (hex_group bs i j) = 2 * (j - i)"
  by (simp add: hex_group_def length_concat_hex)

lemma dash_not_hex: "\<not> is_lower_hex (CHR ''-'')"
  by (simp add: is_lower_hex_def)

lemma slash_not_hex: "\<not> is_lower_hex (CHR ''/'')"
  by (simp add: is_lower_hex_def)

lemma filter_dash_hex:
  "list_all is_lower_hex xs \<Longrightarrow> filter (\<lambda>c. c \<noteq> CHR ''-'') xs = xs"
  by (induction xs) (auto simp: dash_not_hex)

lemma filter_randomUUID:
  "filter (\<lambda>c. c \<noteq> CHR ''-'') (randomUUID r) = undashed r"
  by (simp add: randomUUID_def undashed_def Let_def filter_dash_hex hex_group_hex)

lemma undashed_hex: "list_all is_lower_hex (undashed r)"
  by (simp add: undashed_def Let_def hex_group_hex)

lemma length_undashed: "length (undashed r) = 32"
  by (simp add: undashed_def Let_def length_hex_group length_uuid_bytes)

lemma mint_id_take: "mint_id r = take 16 (undashed r)"
  by (simp add: mint_id_def filter_randomUUID js_substring_def Let_def length_undashed)

lemma length_mint_id: "length (mint_id r) = 16"
  by (simp add: mint_id_take length_undashed)

lemma mint_id_hex: "list_all is_lower_hex (mint_id r)"
  using undashed_hex [of r] by (simp add: mint_id_take list_all_iff) (meson in_set_takeD)

lemma mint_id_nth_hex: "i < 16 \<Longrightarrow> is_lower_hex (mint_id r ! i)"
  using mint_id_hex [of r] length_mint_id [of r] by (simp add: list_all_length)

lemma session_prefix_not_job: "\<not> prefix (mint_id s @ ''/'') (job_key x)"
proof
  assume "prefix (mint_id s @ ''/'') (job_key x)"
  then obtain zs where eq: "job_key x = (mint_id s @ ''/'') @ zs"
    by (auto simp: prefix_def)
  have "job_key x ! 3 = CHR ''/''" by (simp add: job_key_def)
  moreover have "((mint_id s @ ''/'') @ zs) ! 3 = mint_id s ! 3"
    by (simp add: nth_append length_mint_id)
  ultimately have "mint_id s ! 3 = CHR ''/''" using eq by simp
  with mint_id_nth_hex [of 3 s] slash_not_hex show False by simp
qed

text \<open>
  C10. An identifier minted as \<^verbatim>\<open>crypto.randomUUID().replace(/-/g, '').substring(0, 16)\<close>
  (the upload handler's session identifier, the dispatcher's job identifier) has
  exactly 16 characters, all lowercase hexadecimal digits; and no key under the
  \<^verbatim>\<open>job/\<close> prefix is the metadata key or an asset key of a minted session.
\<close>

theorem minted_ids:
  "length (mint_id r) = 16 \<and> list_all is_lower_hex (mint_id r)
   \<and> job_key x \<noteq> meta_key (mint_id s) \<and> job_key x \<noteq> asset_key (mint_id s) i"
proof -
  have "job_key x \<noteq> meta_key (mint_id s)"
    using session_prefix_not_job [of s x] by (auto simp: meta_key_def prefix_def)
  moreover have "job_key x \<noteq> asset_key (mint_id s) i"
    using session_prefix_not_job [of s x] by (auto simp: asset_key_def prefix_def)
  ultimately show ?thesis by (simp add: length_mint_id mint_id_hex)
qed

subsection \<open>The worker's footprint on the store\<close>

lemma setJobStatus_simps:
  "w_stripe (setJobStatus ws jid d) = w_stripe ws"
  "w_request (setJobStatus ws jid d) = w_request ws"
  "w_deleted (setJobStatus ws jid d) = w_deleted ws"
  "w_written (setJobStatus ws jid d) =
     (if set_fails (w_store ws) (job_key jid) then w_written ws else w_written ws @ [d])"
  "blobs (w_store (setJobStatus ws jid d)) =
     (if set_fails (w_store ws) (job_key jid) then blobs (w_store ws)
      else (blobs (w_store ws))(job_key jid \<mapsto> json_entry d))"
  "same_faults (w_store (setJobStatus ws jid d)) t = same_faults (w_store ws) t"
  by (simp_all add: setJobStatus_def store_setJSON_def json_entry_def same_faults_def)

lemma delete_quiet_simps:
  "blobs (delete_quiet s k) = (if delete_fails s k then blobs s else (blobs s)(k := None))"
  "same_faults (delete_quiet s k) t = same_faults s t"
  "delete_fails (delete_quiet s k) = delete_fails s"
  by (simp_all add: delete_quiet_def store_delete_def same_faults_def)

lemma foldl_delete_quiet:
  "blobs (foldl delete_quiet s ks) k =
     (if k \<in> set ks \<and> \<not> delete_fails s k then None else blobs s k)
   \<and> same_faults (foldl delete_quiet s ks) t = same_faults s t
   \<and> delete_fails (foldl delete_quiet s ks) = delete_fails s"
  by (induction ks arbitrary: s) (simp_all add: delete_quiet_simps)

lemma cleanup_simps:
  "blobs (cleanup s sid n) k =
     (if k \<in> set (cleanup_keys sid n) \<and> \<not> delete_fails s k then None else blobs s k)"
  "same_faults (cleanup s sid n) t = same_faults s t"
  using foldl_delete_quiet [of s "cleanup_keys sid n" k t] by (simp_all add: cleanup_def)

lemma job_only_frame: "job_only st jid ws \<Longrightarrow> worker_frame st jid sid ws"
  by (simp add: job_only_def worker_frame_def)

lemma job_only_setJobStatus:
  "job_only st jid ws \<Longrightarrow> job_only st jid (setJobStatus ws jid d)"
  by (simp add: job_only_def setJobStatus_simps)

lemma job_only_catch_all:
  "job_only st jid ws \<Longrightarrow> job_only st jid (catch_all ws jid msg)"
  by (simp add: catch_all_def job_only_setJobStatus split: sum.splits)

lemma job_only_fields:
  "job_only st jid ws \<Longrightarrow> job_only st jid (ws\<lparr>w_request := r\<rparr>)"
  "job_only st jid ws \<Longrightarrow> job_only st jid (ws\<lparr>w_stripe := p\<rparr>)"
  by (simp_all add: job_only_def)

lemma frame_after_cleanup:
  assumes "job_only st jid ws"
  shows "worker_frame st jid sid
           (ws\<lparr>w_store := cleanup (w_store ws) sid n, w_deleted := cleanup_keys sid n\<rparr>)"
proof -
  from assms have "delete_fails (w_store ws) = delete_fails st"
    by (simp add: job_only_def same_faults_def)
  with assms show ?thesis
    by (auto simp: job_only_def worker_frame_def cleanup_simps)
qed

lemma frame_generate_and_store:
  assumes "job_only st jid ws"
  shows "worker_frame st jid sid (generate_and_store env ws jid sid m)"
proof -
  note pres = job_only_frame job_only_setJobStatus job_only_catch_all job_only_fields
    frame_after_cleanup assms
  show ?thesis
    unfolding generate_and_store_def Let_def
    by (simp add: pres split: option.splits jval.splits sum.splits)
qed

lemma frame_background_handler:
  assumes "background_handler env (Some b) st sp = Inr ws"
    and "jobId b = Some jid" and "sessionId b = Some sid"
  shows "worker_frame st jid sid ws"
proof -
  have s: "getStore st = Inr st"
    using assms(1) by (auto simp: background_handler_def getStore_def split: if_splits)
  define ws0 where "ws0 = \<lparr>w_store = st, w_stripe = sp, w_written = [], w_request = None, w_deleted = []\<rparr>"
  have j0: "job_only st jid ws0" by (simp add: job_only_def ws0_def same_faults_def)
  note pres = job_only_frame job_only_setJobStatus job_only_fields frame_generate_and_store j0
  have "worker_frame st jid sid
          (case background_handler env (Some b) st sp of Inr w \<Rightarrow> w | Inl _ \<Rightarrow> ws0)"
    unfolding background_handler_def Let_def s
    using assms(2,3)
    by (simp add: pres ws0_def [symmetric] split: prod.splits option.splits)
  then show ?thesis using assms(1) by simp
qed

subsection \<open>Status polling and terminal-state cleanup\<close>

text \<open>
  C2. A poll (any method but OPTIONS) that carries a job identifier for which the
  configured store holds no record gets status 200 and the body
  \<^verbatim>\<open>{status: 'processing'}\<close>, and the store is left as it was.
\<close>

theorem report_status_absent_job:
  assumes "httpMethod ev \<noteq> ''OPTIONS''"
    and "jobId_param ev = Some jid" and "jid \<noteq> []"
    and "configured st"
    and "blobs st (job_key jid) = None"
  shows "report_status ev st =
           (\<lparr>statusCode = 200, body = Obj [(''status'', JStr ''processing'')]\<rparr>, st)"
  using assms
  by (cases "get_fails st (job_key jid)")
     (simp_all add: report_status_def falsy_def getStore_def store_get_json_def)

theorem report_status_absent_job_witness:
  "report_status \<lparr>httpMethod = ''GET'', jobId_param = Some ''0123456789ab4def''\<rparr>
       (healthy Map.empty) =
     (\<lparr>statusCode = 200, body = Obj [(''status'', JStr ''processing'')]\<rparr>, healthy Map.empty)"
  using report_status_absent_job
          [of "\<lparr>httpMethod = ''GET'', jobId_param = Some ''0123456789ab4def''\<rparr>"
              "''0123456789ab4def''" "healthy Map.empty"]
  by (simp add: healthy_def)

lemma report_status_existing_job:
  assumes "httpMethod ev \<noteq> ''OPTIONS''"
    and "jobId_param ev = Some jid" and "jid \<noteq> []"
    and "configured st" and "\<not> get_fails st (job_key jid)"
    and "blobs st (job_key jid) = Some e" and "content e = Json j"
  shows "report_status ev st =
           (\<lparr>statusCode = 200, body = Obj j\<rparr>,
            if terminal j then delete_quiet st (job_key jid) else st)"
  using assms
  by (simp add: report_status_def falsy_def getStore_def store_get_json_def terminal_def
        delete_quiet_def)

lemma handler_returns:
  "configured st \<Longrightarrow> \<exists>ws. background_handler env ev st sp = Inr ws"
  by (simp add: background_handler_def getStore_def)

lemma cleanup_keys_session:
  "k \<in> set (cleanup_keys sid n) \<Longrightarrow> k = meta_key sid \<or> (\<exists>i<n. k = asset_key sid i)"
  by (auto simp: cleanup_keys_def)

lemma cleanup_keys_prefix:
  "k \<in> set (cleanup_keys sid n) \<Longrightarrow> prefix (sid @ ''/'') k"
  by (auto simp: cleanup_keys_def meta_key_def asset_key_def)

text \<open>
  C3. A poll that reads an existing job record returns that record with status 200. When
  the record's status is \<^verbatim>\<open>complete\<close> or \<^verbatim>\<open>error\<close> the endpoint asks the store to delete
  the job key (and the key is gone where the store honours the delete); otherwise the
  store is left as it is. A worker run asks the store to delete only the session's
  metadata key and asset keys; every key it did not ask to delete is as before, save
  the job key, which holds the last record the worker wrote. The job key is never among
  the deleted keys unless it lies in the session's own key space \<^verbatim>\<open><sessionId>/\<close>, which
  no minted session identifier allows (\<open>session_prefix_not_job\<close>).
\<close>

theorem terminal_state_cleanup:
  "(httpMethod ev \<noteq> ''OPTIONS'' \<and> jobId_param ev = Some jid \<and> jid \<noteq> [] \<and> configured st
      \<and> \<not> get_fails st (job_key jid) \<and> blobs st (job_key jid) = Some e \<and> content e = Json j
    \<longrightarrow> report_status ev st =
          (\<lparr>statusCode = 200, body = Obj j\<rparr>,
           if terminal j then delete_quiet st (job_key jid) else st)
        \<and> (\<not> delete_fails st (job_key jid)
             \<longrightarrow> blobs (delete_quiet st (job_key jid)) = (blobs st)(job_key jid := None)))
   \<and> (configured wst \<and> jobId b = Some wjid \<and> sessionId b = Some sid
    \<longrightarrow> (\<exists>ws. background_handler env (Some b) wst sp = Inr ws
           \<and> (\<forall>k \<in> set (w_deleted ws). k = meta_key sid \<or> (\<exists>i. k = asset_key sid i))
           \<and> (\<forall>k. k \<notin> set (w_deleted ws) \<longrightarrow>
                  blobs (w_store ws) k =
                    (if k = job_key wjid \<and> w_written ws \<noteq> []
                       then Some (json_entry (last (w_written ws))) else blobs wst k))
           \<and> (\<not> prefix (sid @ ''/'') (job_key wjid) \<longrightarrow> job_key wjid \<notin> set (w_deleted ws))))"
proof (intro conjI impI)
  assume a: "httpMethod ev \<noteq> ''OPTIONS'' \<and> jobId_param ev = Some jid \<and> jid \<noteq> [] \<and> configured st
      \<and> \<not> get_fails st (job_key jid) \<and> blobs st (job_key jid) = Some e \<and> content e = Json j"
  then show "report_status ev st =
          (\<lparr>statusCode = 200, body = Obj j\<rparr>,
           if terminal j then delete_quiet st (job_key jid) else st)"
    using report_status_existing_job [of ev jid st e j] by blast
next
  assume "\<not> delete_fails st (job_key jid)"
  then show "blobs (delete_quiet st (job_key jid)) = (blobs st)(job_key jid := None)"
    by (simp add: delete_quiet_simps)
next
  assume a: "configured wst \<and> jobId b = Some wjid \<and> sessionId b = Some sid"
  then obtain ws where run: "background_handler env (Some b) wst sp = Inr ws"
    using handler_returns by blast
  from frame_background_handler [OF run] a have fr: "worker_frame wst wjid sid ws"
    by simp
  have d: "\<forall>k \<in> set (w_deleted ws). k = meta_key sid \<or> (\<exists>i. k = asset_key sid i)"
    using fr cleanup_keys_session unfolding worker_frame_def by fastforce
  have p: "\<not> prefix (sid @ ''/'') (job_key wjid) \<longrightarrow> job_key wjid \<notin> set (w_deleted ws)"
    using fr cleanup_keys_prefix unfolding worker_frame_def by fastforce
  have f: "\<forall>k. k \<notin> set (w_deleted ws) \<longrightarrow>
                  blobs (w_store ws) k =
                    (if k = job_key wjid \<and> w_written ws \<noteq> []
                       then Some (json_entry (last (w_written ws))) else blobs wst k)"
    using fr unfolding worker_frame_def by simp
  from run d f p
  show "\<exists>ws. background_handler env (Some b) wst sp = Inr ws
           \<and> (\<forall>k \<in> set (w_deleted ws). k = meta_key sid \<or> (\<exists>i. k = asset_key sid i))
           \<and> (\<forall>k. k \<notin> set (w_deleted ws) \<longrightarrow>
                  blobs (w_store ws) k =
                    (if k = job_key wjid \<and> w_written ws \<noteq> []
                       then Some (json_entry (last (w_written ws))) else blobs wst k))
           \<and> (\<not> prefix (sid @ ''/'') (job_key wjid) \<longrightarrow> job_key wjid \<notin> set (w_deleted ws))"
    by blast
qed

theorem terminal_state_cleanup_witness:
  "report_status \<lparr>httpMethod = ''GET'', jobId_param = Some demo_jid\<rparr>
       (healthy [job_key demo_jid \<mapsto> json_entry (job_error ''Invalid category'')])
     = (\<lparr>statusCode = 200, body = Obj (job_error ''Invalid category'')\<rparr>,
        delete_quiet (healthy [job_key demo_jid \<mapsto> json_entry (job_error ''Invalid category'')])
          (job_key demo_jid))
   \<and> blobs (delete_quiet (healthy [job_key demo_jid \<mapsto> json_entry (job_error ''Invalid category'')])
          (job_key demo_jid)) = Map.empty
   \<and> (\<exists>ws. background_handler demo_env (Some demo_body) demo_store demo_stripe = Inr ws
         \<and> job_key demo_jid \<notin> set (w_deleted ws)
         \<and> blobs (w_store ws) (job_key demo_jid) =
             (if w_written ws \<noteq> [] then Some (json_entry (last (w_written ws))) else None))"
proof -
  define st where "st = healthy [job_key demo_jid \<mapsto> json_entry (job_error ''Invalid category'')]"
  note T = terminal_state_cleanup
        [where ev = "\<lparr>httpMethod = ''GET'', jobId_param = Some demo_jid\<rparr>" and jid = demo_jid
           and st = st and e = "json_entry (job_error ''Invalid category'')"
           and j = "job_error ''Invalid category''"
           and wst = demo_store and b = demo_body and wjid = demo_jid and sid = demo_sid
           and env = demo_env and sp = demo_stripe]
  have fin: "terminal (job_error ''Invalid category'')"
    by (simp add: terminal_def job_error_def field_def)
  have p1: "httpMethod \<lparr>httpMethod = ''GET'', jobId_param = Some demo_jid\<rparr> \<noteq> ''OPTIONS''
      \<and> jobId_param \<lparr>httpMethod = ''GET'', jobId_param = Some demo_jid\<rparr> = Some demo_jid
      \<and> demo_jid \<noteq> [] \<and> configured st \<and> \<not> get_fails st (job_key demo_jid)
      \<and> blobs st (job_key demo_jid) = Some (json_entry (job_error ''Invalid category''))
      \<and> content (json_entry (job_error ''Invalid category'')) = Json (job_error ''Invalid category'')"
    by (simp add: st_def healthy_def json_entry_def demo_jid_def)
  have nd: "\<not> delete_fails st (job_key demo_jid)"
    by (simp add: st_def healthy_def)
  from T p1 fin nd
  have a1: "report_status \<lparr>httpMethod = ''GET'', jobId_param = Some demo_jid\<rparr> st
            = (\<lparr>statusCode = 200, body = Obj (job_error ''Invalid category'')\<rparr>,
               delete_quiet st (job_key demo_jid))"
    and a2: "blobs (delete_quiet st (job_key demo_jid)) = (blobs st)(job_key demo_jid := None)"
    by simp_all
  have a3: "(blobs st)(job_key demo_jid := None) = Map.empty"
    by (simp add: st_def healthy_def)
  have p2: "configured demo_store \<and> jobId demo_body = Some demo_jid
      \<and> sessionId demo_body = Some demo_sid"
    by (simp add: demo_store_def healthy_def demo_body_def)
  have pre: "\<not> prefix (demo_sid @ ''/'') (job_key demo_jid)"
    by (simp add: demo_sid_def job_key_def)
  have absent: "blobs demo_store (job_key demo_jid) = None"
    by (simp add: demo_store_def healthy_def job_key_def meta_key_def asset_key_def demo_sid_def)
  from T p2 obtain ws where
    run: "background_handler demo_env (Some demo_body) demo_store demo_stripe = Inr ws"
    and fr: "\<forall>k. k \<notin> set (w_deleted ws) \<longrightarrow>
               blobs (w_store ws) k =
                 (if k = job_key demo_jid \<and> w_written ws \<noteq> []
                    then Some (json_entry (last (w_written ws))) else blobs demo_store k)"
    and keep: "\<not> prefix (demo_sid @ ''/'') (job_key demo_jid)
                 \<longrightarrow> job_key demo_jid \<notin> set (w_deleted ws)"
    by blast
  from keep pre have k: "job_key demo_jid \<notin> set (w_deleted ws)" by simp
  with fr absent have "blobs (w_store ws) (job_key demo_jid) =
             (if w_written ws \<noteq> [] then Some (json_entry (last (w_written ws))) else None)"
    by simp
  with run k a1 a2 a3 show ?thesis unfolding st_def by auto
qed

subsection \<open>Dispatch\<close>

lemma generate_report_absent:
  assumes "d_method ev = ''POST''" and "d_body ev = Some b"
    and "sessionId b = Some sid" and "sid \<noteq> []" and "configured st"
    and "blobs st (meta_key sid) = None"
  shows "generate_report env ev st =
           (session_expired_410
              ''Your screenshots have been automatically deleted (15-minute limit). Please upload again.'',
            st, None)"
  using assms
  by (cases "get_fails st (meta_key sid)")
     (simp_all add: generate_report_def falsy_def getStore_def store_get_json_def)

lemma generate_report_live:
  assumes "d_method ev = ''POST''" and "d_body ev = Some b"
    and "sessionId b = Some sid" and "sid \<noteq> []" and "configured st"
    and "\<not> get_fails st (meta_key sid)"
    and "blobs st (meta_key sid) = Some e" and "content e = Json m"
    and "\<not> expired (t_check env) m"
    and "\<not> set_fails st (job_key (mint_id (uuid_random env)))"
  shows "generate_report env ev st =
           (\<lparr>statusCode = 202,
             body = Obj [(''jobId'', JStr (mint_id (uuid_random env))), (''status'', JStr ''processing'')]\<rparr>,
            st\<lparr>blobs := (blobs st)(job_key (mint_id (uuid_random env)) \<mapsto>
                   json_entry (queued_record (t_queued env)))\<rparr>,
            Some \<lparr>url = bgUrl ev,
                  payload = \<lparr>sessionId = Some sid, paymentIntentId = paymentIntentId b,
                             jobId = Some (mint_id (uuid_random env))\<rparr>\<rparr>)"
  using assms
  by (simp add: generate_report_def falsy_def getStore_def store_get_json_def
        store_setJSON_def json_entry_def Let_def)

lemma generate_report_expired:
  assumes "d_method ev = ''POST''" and "d_body ev = Some b"
    and "sessionId b = Some sid" and "sid \<noteq> []" and "configured st"
    and "\<not> get_fails st (meta_key sid)"
    and "blobs st (meta_key sid) = Some e" and "content e = Json m"
    and "expired (t_check env) m"
  shows "generate_report env ev st =
           (session_expired_410 ''Your session has expired. Please upload again.'',
            delete_quiet st (meta_key sid), None)"
  using assms
  by (simp add: generate_report_def falsy_def getStore_def store_get_json_def
        delete_quiet_def Let_def)

lemma generate_report_trigger_absent:
  assumes "d_method ev = ''POST''" and "d_body ev = Some b"
    and "sessionId b = Some sid" and "sid \<noteq> []" and "configured st"
    and "blobs st (meta_key sid) = None"
  shows "generate_report_trigger env ev st =
           (session_expired_410 ''Please re-upload your screenshots.'', st, None)"
  using assms
  by (cases "get_fails st (meta_key sid)")
     (simp_all add: generate_report_trigger_def falsy_def getStore_def store_get_json_def)

lemma generate_report_trigger_live:
  assumes "d_method ev = ''POST''" and "d_body ev = Some b"
    and "sessionId b = Some sid" and "sid \<noteq> []" and "configured st"
    and "\<not> get_fails st (meta_key sid)"
    and "blobs st (meta_key sid) = Some e" and "content e = Json m"
    and "req = \<lparr>url = bgUrl ev,
                payload = \<lparr>sessionId = Some sid, paymentIntentId = paymentIntentId b,
                           jobId = Some (mint_id (tr_uuid env))\<rparr>\<rparr>"
  shows "generate_report_trigger env ev st =
           (case tr_fetch env req of
              Inl msg \<Rightarrow> (\<lparr>statusCode = 500, body = Obj [(''error'', JStr msg)]\<rparr>, st, Some req)
            | Inr bgStatus \<Rightarrow>
                (\<lparr>statusCode = 202,
                  body = Obj [(''jobId'', JStr (mint_id (tr_uuid env))),
                              (''status'', JStr ''processing'')]\<rparr>,
                 st, Some req))"
  using assms
  by (simp add: generate_report_trigger_def falsy_def getStore_def store_get_json_def
        trigger_failed_500_def Let_def split: sum.splits)

lemma bgUrl_host:
  assumes "d_host ev = Some h"
  shows "falsy (d_proto ev) \<Longrightarrow>
           bgUrl ev = ''https://'' @ h @ ''/.netlify/functions/generate-report-background''"
    and "d_proto ev = Some p \<Longrightarrow> p \<noteq> [] \<Longrightarrow>
           bgUrl ev = p @ ''://'' @ h @ ''/.netlify/functions/generate-report-background''"
  using assms by (simp_all add: bgUrl_def falsy_def)

text \<open>
  C5, as the two dispatch handlers implement it, for a POST with a session identifier on a
  configured store. When no metadata is stored for the session, both answer 410
  \<^verbatim>\<open>Session expired\<close>, leave the store unchanged and send nothing. When the metadata is
  there, the dispatcher of \<^verbatim>\<open>generate-report.js\<close> goes on only if its \<^verbatim>\<open>expiresAt\<close> is not in
  the past: it writes the \<^verbatim>\<open>queued\<close> record under a freshly minted job identifier, fires
  the request at the background function and answers 202 with
  \<^verbatim>\<open>{jobId, status: 'processing'}\<close>; its response is a function of the request, the clock,
  the random identifier and the store alone, nothing of the worker's run enters it. The
  trigger variant does not look at \<^verbatim>\<open>expiresAt\<close> and writes no job record: it sends the
  request and waits for the answer, returning 202 with \<^verbatim>\<open>{jobId, status: 'processing'}\<close>
  when the \<^verbatim>\<open>fetch\<close> resolves and 500 with its message when it rejects, the store being
  as it was. Both address the request to
  \<^verbatim>\<open><proto>://<host>/.netlify/functions/generate-report-background\<close>, with \<^verbatim>\<open>https\<close> for a
  missing protocol header.
\<close>

theorem dispatch_outcomes:
  assumes "d_method ev = ''POST''" and "d_body ev = Some b"
    and "sessionId b = Some sid" and "sid \<noteq> []" and "configured st"
  shows "(blobs st (meta_key sid) = None \<longrightarrow>
            generate_report env ev st =
              (session_expired_410
                 ''Your screenshots have been automatically deleted (15-minute limit). Please upload again.'',
               st, None)
          \<and> generate_report_trigger tenv ev st =
              (session_expired_410 ''Please re-upload your screenshots.'', st, None))
       \<and> (\<not> get_fails st (meta_key sid) \<and> blobs st (meta_key sid) = Some e \<and> content e = Json m
            \<and> \<not> expired (t_check env) m \<and> \<not> set_fails st (job_key (mint_id (uuid_random env))) \<longrightarrow>
            generate_report env ev st =
              (\<lparr>statusCode = 202,
                body = Obj [(''jobId'', JStr (mint_id (uuid_random env))),
                            (''status'', JStr ''processing'')]\<rparr>,
               st\<lparr>blobs := (blobs st)(job_key (mint_id (uuid_random env)) \<mapsto>
                      json_entry (queued_record (t_queued env)))\<rparr>,
               Some \<lparr>url = bgUrl ev,
                     payload = \<lparr>sessionId = Some sid, paymentIntentId = paymentIntentId b,
                                jobId = Some (mint_id (uuid_random env))\<rparr>\<rparr>))
       \<and> (\<not> get_fails st (meta_key sid) \<and> blobs st (meta_key sid) = Some e \<and> content e = Json m
            \<and> treq = \<lparr>url = bgUrl ev,
                       payload = \<lparr>sessionId = Some sid, paymentIntentId = paymentIntentId b,
                                  jobId = Some (mint_id (tr_uuid tenv))\<rparr>\<rparr> \<longrightarrow>
            (\<forall>bgStatus. tr_fetch tenv treq = Inr bgStatus \<longrightarrow>
               generate_report_trigger tenv ev st =
                 (\<lparr>statusCode = 202,
                   body = Obj [(''jobId'', JStr (mint_id (tr_uuid tenv))),
                               (''status'', JStr ''processing'')]\<rparr>,
                  st, Some treq))
          \<and> (\<forall>msg. tr_fetch tenv treq = Inl msg \<longrightarrow>
               generate_report_trigger tenv ev st =
                 (\<lparr>statusCode = 500, body = Obj [(''error'', JStr msg)]\<rparr>, st, Some treq)))
       \<and> (d_host ev = Some h \<longrightarrow>
            (falsy (d_proto ev) \<longrightarrow>
               bgUrl ev = ''https://'' @ h @ ''/.netlify/functions/generate-report-background'')
          \<and> (d_proto ev = Some p \<and> p \<noteq> [] \<longrightarrow>
               bgUrl ev = p @ ''://'' @ h @ ''/.netlify/functions/generate-report-background''))"
proof (intro conjI impI allI)
  assume "blobs st (meta_key sid) = None"
  then show "generate_report env ev st =
              (session_expired_410
                 ''Your screenshots have been automatically deleted (15-minute limit). Please upload again.'',
               st, None)"
    and "generate_report_trigger tenv ev st =
              (session_expired_410 ''Please re-upload your screenshots.'', st, None)"
    using generate_report_absent [OF assms] generate_report_trigger_absent [OF assms]
    by blast+
next
  assume "\<not> get_fails st (meta_key sid) \<and> blobs st (meta_key sid) = Some e \<and> content e = Json m
            \<and> \<not> expired (t_check env) m \<and> \<not> set_fails st (job_key (mint_id (uuid_random env)))"
  then show "generate_report env ev st =
              (\<lparr>statusCode = 202,
                body = Obj [(''jobId'', JStr (mint_id (uuid_random env))),
                            (''status'', JStr ''processing'')]\<rparr>,
               st\<lparr>blobs := (blobs st)(job_key (mint_id (uuid_random env)) \<mapsto>
                      json_entry (queued_record (t_queued env)))\<rparr>,
               Some \<lparr>url = bgUrl ev,
                     payload = \<lparr>sessionId = Some sid, paymentIntentId = paymentIntentId b,
                                jobId = Some (mint_id (uuid_random env))\<rparr>\<rparr>)"
    using generate_report_live [OF assms] by blast
next
  fix bgStatus
  assume a: "\<not> get_fails st (meta_key sid) \<and> blobs st (meta_key sid) = Some e \<and> content e = Json m
            \<and> treq = \<lparr>url = bgUrl ev,
                       payload = \<lparr>sessionId = Some sid, paymentIntentId = paymentIntentId b,
                                  jobId = Some (mint_id (tr_uuid tenv))\<rparr>\<rparr>"
    and f: "tr_fetch tenv treq = Inr bgStatus"
  from a have "generate_report_trigger tenv ev st =
           (case tr_fetch tenv treq of
              Inl msg \<Rightarrow> (\<lparr>statusCode = 500, body = Obj [(''error'', JStr msg)]\<rparr>, st, Some treq)
            | Inr bgStatus \<Rightarrow>
                (\<lparr>statusCode = 202,
                  body = Obj [(''jobId'', JStr (mint_id (tr_uuid tenv))),
                              (''status'', JStr ''processing'')]\<rparr>,
                 st, Some treq))"
    by (intro generate_report_trigger_live [OF assms, where e = e and m = m]) blast+
  with f show "generate_report_trigger tenv ev st =
                 (\<lparr>statusCode = 202,
                   body = Obj [(''jobId'', JStr (mint_id (tr_uuid tenv))),
                               (''status'', JStr ''processing'')]\<rparr>,
                  st, Some treq)"
    by simp
next
  fix msg
  assume a: "\<not> get_fails st (meta_key sid) \<and> blobs st (meta_key sid) = Some e \<and> content e = Json m
            \<and> treq = \<lparr>url = bgUrl ev,
                       payload = \<lparr>sessionId = Some sid, paymentIntentId = paymentIntentId b,
                                  jobId = Some (mint_id (tr_uuid tenv))\<rparr>\<rparr>"
    and f: "tr_fetch tenv treq = Inl msg"
  from a have "generate_report_trigger tenv ev st =
           (case tr_fetch tenv treq of
              Inl msg \<Rightarrow> (\<lparr>statusCode = 500, body = Obj [(''error'', JStr msg)]\<rparr>, st, Some treq)
            | Inr bgStatus \<Rightarrow>
                (\<lparr>statusCode = 202,
                  body = Obj [(''jobId'', JStr (mint_id (tr_uuid tenv))),
                              (''status'', JStr ''processing'')]\<rparr>,
                 st, Some treq))"
    by (intro generate_report_trigger_live [OF assms, where e = e and m = m]) blast+
  with f show "generate_report_trigger tenv ev st =
                 (\<lparr>statusCode = 500, body = Obj [(''error'', JStr msg)]\<rparr>, st, Some treq)"
    by simp
next
  assume "d_host ev = Some h"
  then show "falsy (d_proto ev) \<Longrightarrow>
               bgUrl ev = ''https://'' @ h @ ''/.netlify/functions/generate-report-background''"
    and "d_proto ev = Some p \<and> p \<noteq> [] \<Longrightarrow>
               bgUrl ev = p @ ''://'' @ h @ ''/.netlify/functions/generate-report-background''"
    using bgUrl_host(1) [of ev h] bgUrl_host(2) [of ev h p] by blast+
qed

theorem dispatch_outcomes_witness:
  "generate_report demo_dispatch_env demo_dispatch (healthy Map.empty) =
     (session_expired_410
        ''Your screenshots have been automatically deleted (15-minute limit). Please upload again.'',
      healthy Map.empty, None)
   \<and> generate_report_trigger (demo_trigger_env (Inr 202)) demo_dispatch (healthy Map.empty) =
       (session_expired_410 ''Please re-upload your screenshots.'', healthy Map.empty, None)
   \<and> generate_report demo_dispatch_env demo_dispatch demo_store =
       (\<lparr>statusCode = 202,
         body = Obj [(''jobId'', JStr (mint_id (uuid_random demo_dispatch_env))),
                     (''status'', JStr ''processing'')]\<rparr>,
        demo_store\<lparr>blobs := (blobs demo_store)(job_key (mint_id (uuid_random demo_dispatch_env)) \<mapsto>
                      json_entry (queued_record (t_queued demo_dispatch_env)))\<rparr>,
        Some \<lparr>url = ''https://listinglens.example/.netlify/functions/generate-report-background'',
              payload = \<lparr>sessionId = Some demo_sid, paymentIntentId = None,
                         jobId = Some (mint_id (uuid_random demo_dispatch_env))\<rparr>\<rparr>)
   \<and> generate_report_trigger (demo_trigger_env (Inr 202)) demo_dispatch demo_store =
       (\<lparr>statusCode = 202,
         body = Obj [(''jobId'', JStr (mint_id (tr_uuid (demo_trigger_env (Inr 202))))),
                     (''status'', JStr ''processing'')]\<rparr>,
        demo_store,
        Some \<lparr>url = ''https://listinglens.example/.netlify/functions/generate-report-background'',
              payload = \<lparr>sessionId = Some demo_sid, paymentIntentId = None,
                         jobId = Some (mint_id (tr_uuid (demo_trigger_env (Inr 202))))\<rparr>\<rparr>)
   \<and> generate_report_trigger (demo_trigger_env (Inl ''fetch failed'')) demo_dispatch demo_store =
       (\<lparr>statusCode = 500, body = Obj [(''error'', JStr ''fetch failed'')]\<rparr>,
        demo_store,
        Some \<lparr>url = ''https://listinglens.example/.netlify/functions/generate-report-background'',
              payload = \<lparr>sessionId = Some demo_sid, paymentIntentId = None,
                         jobId = Some (mint_id (tr_uuid (demo_trigger_env (Inl ''fetch failed''))))\<rparr>\<rparr>)"
proof -
  let ?b = "\<lparr>sessionId = Some demo_sid, paymentIntentId = None, jobId = None\<rparr>"
  let ?u = "''https://listinglens.example/.netlify/functions/generate-report-background''"
  let ?ok = "demo_trigger_env (Inr 202)"
  let ?ko = "demo_trigger_env (Inl ''fetch failed'')"
  have ev: "d_method demo_dispatch = ''POST''" "d_body demo_dispatch = Some ?b"
    "sessionId ?b = Some demo_sid" "demo_sid \<noteq> []"
    by (simp_all add: demo_dispatch_def demo_sid_def)
  have c0: "configured (healthy Map.empty)" and c1: "configured demo_store"
    by (simp_all add: healthy_def demo_store_def)
  have gone: "blobs (healthy Map.empty) (meta_key demo_sid) = None"
    by (simp add: healthy_def)
  have live: "\<not> expired (t_check demo_dispatch_env) demo_meta"
    by (simp add: expired_def demo_meta_def demo_dispatch_env_def field_def date_of_def)
  have here: "blobs demo_store (meta_key demo_sid) = Some (json_entry demo_meta)"
    by (simp add: demo_store_def healthy_def meta_key_def asset_key_def)
  have c: "content (json_entry demo_meta) = Json demo_meta"
    by (simp add: json_entry_def)
  have nf: "\<not> get_fails demo_store (meta_key demo_sid)"
    "\<not> set_fails demo_store (job_key (mint_id (uuid_random demo_dispatch_env)))"
    by (simp_all add: demo_store_def healthy_def)
  have host: "d_host demo_dispatch = Some ''listinglens.example''"
    and proto: "falsy (d_proto demo_dispatch)"
    by (simp_all add: demo_dispatch_def falsy_def)
  have pid: "paymentIntentId ?b = None" by simp
  note A = dispatch_outcomes [OF ev c0, where env = demo_dispatch_env and tenv = ?ok]
  from A gone have a1: "generate_report demo_dispatch_env demo_dispatch (healthy Map.empty) =
     (session_expired_410
        ''Your screenshots have been automatically deleted (15-minute limit). Please upload again.'',
      healthy Map.empty, None)"
    and a2: "generate_report_trigger ?ok demo_dispatch (healthy Map.empty) =
       (session_expired_410 ''Please re-upload your screenshots.'', healthy Map.empty, None)"
    by blast+
  note B = dispatch_outcomes [OF ev c1, where env = demo_dispatch_env and tenv = ?ok
             and e = "json_entry demo_meta" and m = demo_meta and h = "''listinglens.example''"
             and treq = "\<lparr>url = bgUrl demo_dispatch,
                        payload = \<lparr>sessionId = Some demo_sid, paymentIntentId = paymentIntentId ?b,
                                   jobId = Some (mint_id (tr_uuid ?ok))\<rparr>\<rparr>"]
  from B host proto have u: "bgUrl demo_dispatch = ?u" by simp
  from B nf here c live
  have b1: "generate_report demo_dispatch_env demo_dispatch demo_store =
       (\<lparr>statusCode = 202,
         body = Obj [(''jobId'', JStr (mint_id (uuid_random demo_dispatch_env))),
                     (''status'', JStr ''processing'')]\<rparr>,
        demo_store\<lparr>blobs := (blobs demo_store)(job_key (mint_id (uuid_random demo_dispatch_env)) \<mapsto>
                      json_entry (queued_record (t_queued demo_dispatch_env)))\<rparr>,
        Some \<lparr>url = bgUrl demo_dispatch,
              payload = \<lparr>sessionId = Some demo_sid, paymentIntentId = paymentIntentId ?b,
                         jobId = Some (mint_id (uuid_random demo_dispatch_env))\<rparr>\<rparr>)"
    by blast
  have f1: "tr_fetch ?ok r = Inr 202" for r by (simp add: demo_trigger_env_def)
  from B nf(1) here c f1
  have b2: "generate_report_trigger ?ok demo_dispatch demo_store =
       (\<lparr>statusCode = 202,
         body = Obj [(''jobId'', JStr (mint_id (tr_uuid ?ok))), (''status'', JStr ''processing'')]\<rparr>,
        demo_store,
        Some \<lparr>url = bgUrl demo_dispatch,
              payload = \<lparr>sessionId = Some demo_sid, paymentIntentId = paymentIntentId ?b,
                         jobId = Some (mint_id (tr_uuid ?ok))\<rparr>\<rparr>)"
    by blast
  note C = dispatch_outcomes [OF ev c1, where env = demo_dispatch_env and tenv = ?ko
             and e = "json_entry demo_meta" and m = demo_meta
             and treq = "\<lparr>url = bgUrl demo_dispatch,
                        payload = \<lparr>sessionId = Some demo_sid, paymentIntentId = paymentIntentId ?b,
                                   jobId = Some (mint_id (tr_uuid ?ko))\<rparr>\<rparr>"]
  have f2: "tr_fetch ?ko r = Inl ''fetch failed''" for r by (simp add: demo_trigger_env_def)
  from C nf(1) here c f2
  have b3: "generate_report_trigger ?ko demo_dispatch demo_store =
       (\<lparr>statusCode = 500, body = Obj [(''error'', JStr ''fetch failed'')]\<rparr>,
        demo_store,
        Some \<lparr>url = bgUrl demo_dispatch,
              payload = \<lparr>sessionId = Some demo_sid, paymentIntentId = paymentIntentId ?b,
                         jobId = Some (mint_id (tr_uuid ?ko))\<rparr>\<rparr>)"
    by blast
  from a1 a2 b1 b2 b3 show ?thesis unfolding u pid by blast
qed

text \<open>
  The session of the example exists in the store, yet one millisecond after its
  \<^verbatim>\<open>expiresAt\<close> the dispatcher answers 410, deletes the metadata and creates no job. The
  trigger variant answers 202 for the same session and leaves the store as it was, with
  no record under the job key; and when its awaited \<^verbatim>\<open>fetch\<close> rejects it answers 500.
\<close>

theorem dispatch_session_counterexample:
  "blobs demo_store (meta_key demo_sid) = Some (json_entry demo_meta)
   \<and> generate_report (demo_dispatch_env\<lparr>t_check := 900001\<rparr>) demo_dispatch demo_store =
       (session_expired_410 ''Your session has expired. Please upload again.'',
        delete_quiet demo_store (meta_key demo_sid), None)
   \<and> dom (blobs (delete_quiet demo_store (meta_key demo_sid))) = {asset_key demo_sid 0}
   \<and> statusCode (fst (generate_report_trigger (demo_trigger_env (Inr 202)) demo_dispatch demo_store))
       = 202
   \<and> fst (snd (generate_report_trigger (demo_trigger_env (Inr 202)) demo_dispatch demo_store))
       = demo_store
   \<and> blobs demo_store (job_key (mint_id (tr_uuid (demo_trigger_env (Inr 202))))) = None
   \<and> statusCode (fst (generate_report_trigger (demo_trigger_env (Inl ''fetch failed''))
                         demo_dispatch demo_store))
       = 500"
proof -
  let ?b = "\<lparr>sessionId = Some demo_sid, paymentIntentId = None, jobId = None\<rparr>"
  have gone: "expired (t_check (demo_dispatch_env\<lparr>t_check := 900001\<rparr>)) demo_meta"
    by (simp add: expired_def demo_meta_def field_def date_of_def)
  have here: "blobs demo_store (meta_key demo_sid) = Some (json_entry demo_meta)"
    by (simp add: demo_store_def healthy_def meta_key_def asset_key_def)
  have a: "generate_report (demo_dispatch_env\<lparr>t_check := 900001\<rparr>) demo_dispatch demo_store =
       (session_expired_410 ''Your session has expired. Please upload again.'',
        delete_quiet demo_store (meta_key demo_sid), None)"
    using gone here
    by (intro generate_report_expired [where b = ?b and e = "json_entry demo_meta"])
       (simp_all add: demo_dispatch_def demo_sid_def demo_store_def healthy_def json_entry_def)
  have b: "dom (blobs (delete_quiet demo_store (meta_key demo_sid))) = {asset_key demo_sid 0}"
    by (auto simp: delete_quiet_simps demo_store_def healthy_def meta_key_def asset_key_def
          split: if_splits)
  have ev: "d_method demo_dispatch = ''POST''" "d_body demo_dispatch = Some ?b"
    "sessionId ?b = Some demo_sid" "demo_sid \<noteq> []" "configured demo_store"
    "\<not> get_fails demo_store (meta_key demo_sid)"
    by (simp_all add: demo_dispatch_def demo_sid_def demo_store_def healthy_def)
  have c: "content (json_entry demo_meta) = Json demo_meta"
    by (simp add: json_entry_def)
  note T = generate_report_trigger_live [OF ev here c refl]
  have t1: "statusCode (fst (generate_report_trigger (demo_trigger_env (Inr 202)) demo_dispatch
                               demo_store)) = 202"
    and t2: "fst (snd (generate_report_trigger (demo_trigger_env (Inr 202)) demo_dispatch
                         demo_store)) = demo_store"
    and t3: "statusCode (fst (generate_report_trigger (demo_trigger_env (Inl ''fetch failed''))
                               demo_dispatch demo_store)) = 500"
    by (simp_all add: T demo_trigger_env_def)
  have none: "blobs demo_store (job_key (mint_id (tr_uuid (demo_trigger_env (Inr 202))))) = None"
    by (simp add: demo_store_def healthy_def job_key_def meta_key_def asset_key_def demo_sid_def)
  from here a b t1 t2 none t3 show ?thesis by blast
qed

subsection \<open>Rate limiting\<close>







subsection \<open>Report identifier\<close>

lemma upper_base36: "is_base36 c \<Longrightarrow> is_upper_alnum (upper_char c)"
proof -
  have "list_all (\<lambda>c. is_upper_alnum (upper_char c)) ''0123456789abcdefghijklmnopqrstuvwxyz''"
    by code_simp
  then show "is_base36 c \<Longrightarrow> is_upper_alnum (upper_char c)"
    unfolding is_base36_def list_all_iff by blast
qed

text \<open>
  A rendering with at least five base-36 digits after \<^verbatim>\<open>"0."\<close> gives an identifier
  that matches \<^verbatim>\<open>LL-[A-Z0-9]{5}\<close>; one with fewer does not.
\<close>

lemma reportId_pattern_iff:
  assumes "list_all is_base36 ds"
  shows "is_report_id (mint_reportId (''0.'' @ ds)) \<longleftrightarrow> 5 \<le> length ds"
proof -
  have sub: "js_substring (''0.'' @ ds) 2 7 = take 5 ds"
    by (simp add: js_substring_def Let_def min_def max_def)
  have "list_all is_base36 (take 5 ds)"
    using assms by (simp add: list_all_iff) (meson in_set_takeD)
  then have up: "list_all is_upper_alnum (toUpperCase (take 5 ds))"
    by (simp add: toUpperCase_def list_all_iff upper_base36)
  have len: "length (toUpperCase (take 5 ds)) = min 5 (length ds)"
    by (simp add: toUpperCase_def min_def)
  have "is_report_id (''LL-'' @ toUpperCase (take 5 ds)) \<longleftrightarrow> 5 \<le> length ds"
    using up len by (auto simp: is_report_id_def)
  then show ?thesis
    by (simp only: mint_reportId_def sub)
qed

text \<open>
  C9 at a short rendering. One half prints as \<^verbatim>\<open>"0.i"\<close> in base 36 and zero as
  \<^verbatim>\<open>"0"\<close>: \<^verbatim>\<open>substring(2, 7)\<close> then yields fewer than five characters, and the worker
  completes the job with the identifier \<^verbatim>\<open>LL-I\<close>, which \<^verbatim>\<open>LL-[A-Z0-9]{5}\<close> does not
  match.
\<close>

theorem reportId_short_rendering:
  "mint_reportId ''0.i'' = ''LL-I'' \<and> \<not> is_report_id (mint_reportId ''0.i'')
   \<and> mint_reportId ''0'' = ''LL-'' \<and> \<not> is_report_id (mint_reportId ''0'')
   \<and> (case background_handler (demo_env\<lparr>random36 := ''0.i''\<rparr>) (Some demo_body) demo_store
              demo_stripe of
         Inr ws \<Rightarrow> w_written ws | Inl e \<Rightarrow> [])
       = [processing_record 1000,
          complete_record ''LL-I'' ''<!DOCTYPE html><html></html>'' 2000]"
  by code_simp

subsection \<open>Payment verification\<close>

lemma used_mark_used: "used (i\<lparr>metadata := Some (mark_used i)\<rparr>)"
  by (simp add: used_def mark_used_def)

lemma verifyPayment_marked:
  assumes "\<not> beta" and "pid = Some p" and "p \<noteq> []"
    and "paymentIntents_retrieve sp p = Inr i" and "used i"
  shows "\<not> valid (fst (verifyPayment beta sp pid)) \<and> snd (verifyPayment beta sp pid) = sp
       \<and> (status i = ''succeeded'' \<and> amount i \<in> {200, 500, 1000} \<and> currency i = ''aud''
            \<longrightarrow> reason (fst (verifyPayment beta sp pid)) = Some ''Payment already used'')"
  using assms by (simp add: verifyPayment_def falsy_def)

lemma verifyPayment_accepted:
  assumes "\<not> beta" and "valid (fst (verifyPayment beta sp pid))"
  shows "\<exists>p i. pid = Some p \<and> p \<noteq> [] \<and> intents sp p = Some i
           \<and> status i = ''succeeded'' \<and> amount i \<in> {200, 500, 1000} \<and> currency i = ''aud''
           \<and> \<not> used i
           \<and> snd (verifyPayment beta sp pid) =
               sp\<lparr>intents := (intents sp)(p \<mapsto> i\<lparr>metadata := Some (mark_used i)\<rparr>)\<rparr>
           \<and> verifyPayment beta (snd (verifyPayment beta sp pid)) pid =
               (\<lparr>valid = False, reason = Some ''Payment already used''\<rparr>,
                snd (verifyPayment beta sp pid))
           \<and> verifyPayment_inline beta (snd (verifyPayment beta sp pid)) pid =
               (\<lparr>valid = False, reason = Some ''Already used''\<rparr>,
                snd (verifyPayment beta sp pid))"
proof -
  from assms obtain p where p: "pid = Some p" "p \<noteq> []"
    by (cases pid) (auto simp: verifyPayment_def falsy_def split: if_splits)
  from assms p obtain i where i: "paymentIntents_retrieve sp p = Inr i"
    by (cases "paymentIntents_retrieve sp p") (auto simp: verifyPayment_def falsy_def)
  then have re: "retrieve_error sp = None" and st: "intents sp p = Some i"
    by (auto simp: paymentIntents_retrieve_def split: option.splits)
  from assms p i have checks: "status i = ''succeeded''" "amount i \<in> {200, 500, 1000}"
      "currency i = ''aud''" "\<not> used i"
    by (auto simp: verifyPayment_def falsy_def split: if_splits)
  from assms p i checks obtain sp' where
    up: "paymentIntents_update sp p (mark_used i) = Inr sp'"
    by (cases "paymentIntents_update sp p (mark_used i)") (auto simp: verifyPayment_def falsy_def)
  with st have sp': "sp' = sp\<lparr>intents := (intents sp)(p \<mapsto> i\<lparr>metadata := Some (mark_used i)\<rparr>)\<rparr>"
    by (auto simp: paymentIntents_update_def split: option.splits)
  from assms p i checks up have first: "snd (verifyPayment beta sp pid) = sp'"
    by (simp add: verifyPayment_def falsy_def)
  have again: "paymentIntents_retrieve sp' p = Inr (i\<lparr>metadata := Some (mark_used i)\<rparr>)"
    using re by (simp add: sp' paymentIntents_retrieve_def)
  have second: "verifyPayment beta sp' pid =
                  (\<lparr>valid = False, reason = Some ''Payment already used''\<rparr>, sp')"
    using assms(1) p again checks used_mark_used [of i]
    by (simp add: verifyPayment_def falsy_def)
  have inline: "verifyPayment_inline beta sp' pid =
                  (\<lparr>valid = False, reason = Some ''Already used''\<rparr>, sp')"
    using assms(1) p again checks used_mark_used [of i]
    by (simp add: verifyPayment_inline_def falsy_def)
  from p st checks first sp' second inline show ?thesis by auto
qed

lemma setJobStatus_faults:
  "configured (w_store (setJobStatus ws jid d)) = configured (w_store ws)"
  "get_fails (w_store (setJobStatus ws jid d)) = get_fails (w_store ws)"
  "meta_fails (w_store (setJobStatus ws jid d)) = meta_fails (w_store ws)"
  "set_fails (w_store (setJobStatus ws jid d)) = set_fails (w_store ws)"
  "delete_fails (w_store (setJobStatus ws jid d)) = delete_fails (w_store ws)"
  by (simp_all add: setJobStatus_def store_setJSON_def)

lemma worker_payment_rejected:
  assumes "configured st" and "jobId b = Some jid" and "jid \<noteq> []"
    and "sessionId b = Some sid" and "sid \<noteq> []"
    and "\<not> set_fails st (job_key jid)"
    and "\<not> valid (fst (verifyPayment (beta_mode env) sp (paymentIntentId b)))"
  shows "\<exists>ws. background_handler env (Some b) st sp = Inr ws
           \<and> w_written ws =
               [processing_record (t_started env),
                job_error (''Payment failed: ''
                   @ (case reason (fst (verifyPayment (beta_mode env) sp (paymentIntentId b))) of
                        None \<Rightarrow> ''undefined'' | Some r \<Rightarrow> r))]
           \<and> blobs (w_store ws) (job_key jid) = Some (json_entry (last (w_written ws)))
           \<and> w_request ws = None \<and> w_deleted ws = []
           \<and> w_stripe ws = snd (verifyPayment (beta_mode env) sp (paymentIntentId b))"
  using assms
  by (simp add: background_handler_def getStore_def falsy_def Let_def split_def
        setJobStatus_simps setJobStatus_faults)

lemma verifyPayment_inline_verdict:
  "valid (fst (verifyPayment_inline beta sp pid)) = valid (fst (verifyPayment beta sp pid))
   \<and> snd (verifyPayment_inline beta sp pid) = snd (verifyPayment beta sp pid)"
  by (simp add: verifyPayment_inline_def verifyPayment_def split: sum.splits)

lemma verifyPayment_reason:
  "\<not> valid (fst (verifyPayment beta sp pid)) \<Longrightarrow> \<exists>r. reason (fst (verifyPayment beta sp pid)) = Some r"
  by (auto simp: verifyPayment_def split: if_splits sum.splits)

lemma verifyPayment_bypass:
  "verifyPayment True sp pid = (\<lparr>valid = True, reason = None\<rparr>, sp)"
  "verifyPayment_inline True sp pid = (\<lparr>valid = True, reason = None\<rparr>, sp)"
  by (simp_all add: verifyPayment_def verifyPayment_inline_def)

lemma sound_checks:
  assumes "sound sp" and "paymentIntents_retrieve sp p = Inr i" and "used i"
  shows "status i = ''succeeded'' \<and> amount i \<in> {200, 500, 1000} \<and> currency i = ''aud''"
proof -
  from assms(2) have "intents sp p = Some i"
    by (auto simp: paymentIntents_retrieve_def split: option.splits)
  with assms(1,3) show ?thesis unfolding sound_def by blast
qed

lemma verifyPayment_marked_sound:
  assumes "\<not> beta" and "pid = Some p" and "p \<noteq> []"
    and "paymentIntents_retrieve sp p = Inr i" and "used i" and "sound sp"
  shows "verifyPayment beta sp pid = (\<lparr>valid = False, reason = Some ''Payment already used''\<rparr>, sp)"
    and "verifyPayment_inline beta sp pid = (\<lparr>valid = False, reason = Some ''Already used''\<rparr>, sp)"
  using assms sound_checks [OF assms(6,4,5)]
  by (simp_all add: verifyPayment_def verifyPayment_inline_def falsy_def)

lemma verifyPayment_inline_accepted:
  assumes "valid (fst (verifyPayment beta sp pid))"
  shows "verifyPayment_inline beta sp pid = verifyPayment beta sp pid"
  using assms
  by (auto simp: verifyPayment_inline_def verifyPayment_def split: sum.splits if_splits)

lemma sound_verifyPayment: 
  assumes "sound sp" shows "sound (snd (verifyPayment beta sp pid))"
proof (cases "valid (fst (verifyPayment beta sp pid)) \<and> \<not> beta")
  case True
  with verifyPayment_accepted [of beta sp pid] obtain p i where
    i: "intents sp p = Some i" "status i = ''succeeded''" "amount i \<in> {200, 500, 1000}"
       "currency i = ''aud''"
    and s: "snd (verifyPayment beta sp pid) =
               sp\<lparr>intents := (intents sp)(p \<mapsto> i\<lparr>metadata := Some (mark_used i)\<rparr>)\<rparr>"
    by blast
  show ?thesis unfolding s using assms i by (auto simp: sound_def)
next
  case False
  then have "snd (verifyPayment beta sp pid) = sp"
    by (auto simp: verifyPayment_def split: sum.splits if_splits)
  with assms show ?thesis by simp
qed

lemma sound_unmarked: "\<forall>p i. intents sp p = Some i \<longrightarrow> \<not> used i \<Longrightarrow> sound sp"
  by (auto simp: sound_def)

text \<open>
  C1, as both copies of \<^verbatim>\<open>verifyPayment\<close> implement it (\<^verbatim>\<open>verifyPayment\<close> is the one of
  \<^verbatim>\<open>generate-report-background.js\<close>, \<^verbatim>\<open>verifyPayment_inline\<close> the one of the in-process
  variant). With the bypass flag on, every reference is accepted, nothing is checked and
  nothing is marked. With the flag off, a reference whose intent carries the prior-use
  marker is never accepted and the provider is left as it was; on a provider whose markers
  were all set by verification (\<^const>\<open>sound\<close>: it holds when no intent is marked, and
  verification preserves it) the reason is \<^verbatim>\<open>Payment already used\<close>, \<^verbatim>\<open>Already used\<close> in the
  in-process copy, and the run of the worker ends with the job record
  \<^verbatim>\<open>{status: 'error', error: 'Payment failed: Payment already used'}\<close>, no generation
  request and no deletion. With the flag off, a reference that is accepted had status
  \<^verbatim>\<open>succeeded\<close>, an amount among 200, 500 and 1000, currency \<^verbatim>\<open>aud\<close> and no marker; the
  marker is set on acceptance, and verifying the same reference again is rejected by
  either copy. The two copies agree on the verdict and on the provider they leave.
\<close>

theorem payment_single_use:
  "(beta \<longrightarrow>
      verifyPayment beta sp pid = (\<lparr>valid = True, reason = None\<rparr>, sp)
    \<and> verifyPayment_inline beta sp pid = (\<lparr>valid = True, reason = None\<rparr>, sp))
   \<and> (\<not> beta \<and> pid = Some p \<and> p \<noteq> [] \<and> paymentIntents_retrieve sp p = Inr i \<and> used i \<longrightarrow>
          \<not> valid (fst (verifyPayment beta sp pid)) \<and> snd (verifyPayment beta sp pid) = sp
        \<and> \<not> valid (fst (verifyPayment_inline beta sp pid))
        \<and> snd (verifyPayment_inline beta sp pid) = sp
        \<and> (sound sp \<longrightarrow>
              verifyPayment beta sp pid =
                (\<lparr>valid = False, reason = Some ''Payment already used''\<rparr>, sp)
            \<and> verifyPayment_inline beta sp pid =
                (\<lparr>valid = False, reason = Some ''Already used''\<rparr>, sp)
            \<and> (beta_mode env = beta \<and> paymentIntentId b = pid \<and> configured st
                 \<and> jobId b = Some jid \<and> jid \<noteq> [] \<and> sessionId b = Some sid \<and> sid \<noteq> []
                 \<and> \<not> set_fails st (job_key jid) \<longrightarrow>
               (\<exists>ws. background_handler env (Some b) st sp = Inr ws
                  \<and> w_written ws =
                      [processing_record (t_started env),
                       job_error ''Payment failed: Payment already used'']
                  \<and> blobs (w_store ws) (job_key jid) =
                      Some (json_entry (job_error ''Payment failed: Payment already used''))
                  \<and> w_request ws = None \<and> w_deleted ws = [] \<and> w_stripe ws = sp))))
   \<and> (\<not> beta \<and> valid (fst (verifyPayment beta sp pid)) \<longrightarrow>
         (\<exists>q j. pid = Some q \<and> q \<noteq> [] \<and> intents sp q = Some j
            \<and> status j = ''succeeded'' \<and> amount j \<in> {200, 500, 1000} \<and> currency j = ''aud''
            \<and> \<not> used j
            \<and> snd (verifyPayment beta sp pid) =
                sp\<lparr>intents := (intents sp)(q \<mapsto> j\<lparr>metadata := Some (mark_used j)\<rparr>)\<rparr>
            \<and> verifyPayment_inline beta sp pid = verifyPayment beta sp pid
            \<and> verifyPayment beta (snd (verifyPayment beta sp pid)) pid =
                (\<lparr>valid = False, reason = Some ''Payment already used''\<rparr>,
                 snd (verifyPayment beta sp pid))
            \<and> verifyPayment_inline beta (snd (verifyPayment beta sp pid)) pid =
                (\<lparr>valid = False, reason = Some ''Already used''\<rparr>,
                 snd (verifyPayment beta sp pid))))
   \<and> valid (fst (verifyPayment_inline beta sp pid)) = valid (fst (verifyPayment beta sp pid))
   \<and> ((\<forall>q j. intents sp q = Some j \<longrightarrow> \<not> used j) \<longrightarrow> sound sp)
   \<and> (sound sp \<longrightarrow> sound (snd (verifyPayment beta sp pid))
                  \<and> sound (snd (verifyPayment_inline beta sp pid)))"
proof (intro conjI impI)
  assume beta
  then show "verifyPayment beta sp pid = (\<lparr>valid = True, reason = None\<rparr>, sp)"
    and "verifyPayment_inline beta sp pid = (\<lparr>valid = True, reason = None\<rparr>, sp)"
    by (simp_all add: verifyPayment_bypass)
next
  assume a: "\<not> beta \<and> pid = Some p \<and> p \<noteq> [] \<and> paymentIntents_retrieve sp p = Inr i \<and> used i"
  note m = verifyPayment_marked [of beta pid p sp i]
  from a m show inv: "\<not> valid (fst (verifyPayment beta sp pid))"
    and same: "snd (verifyPayment beta sp pid) = sp"
    by blast+
  from inv same verifyPayment_inline_verdict [of beta sp pid]
  show "\<not> valid (fst (verifyPayment_inline beta sp pid))"
    and "snd (verifyPayment_inline beta sp pid) = sp"
    by simp_all
  assume s: "sound sp"
  from a s show r: "verifyPayment beta sp pid =
                (\<lparr>valid = False, reason = Some ''Payment already used''\<rparr>, sp)"
    and "verifyPayment_inline beta sp pid =
                (\<lparr>valid = False, reason = Some ''Already used''\<rparr>, sp)"
    by (simp_all add: verifyPayment_marked_sound)
  assume h: "beta_mode env = beta \<and> paymentIntentId b = pid \<and> configured st
                 \<and> jobId b = Some jid \<and> jid \<noteq> [] \<and> sessionId b = Some sid \<and> sid \<noteq> []
                 \<and> \<not> set_fails st (job_key jid)"
  from h inv worker_payment_rejected [of st b jid sid env sp] obtain ws where
    "background_handler env (Some b) st sp = Inr ws"
    "w_written ws =
               [processing_record (t_started env),
                job_error (''Payment failed: ''
                   @ (case reason (fst (verifyPayment (beta_mode env) sp (paymentIntentId b))) of
                        None \<Rightarrow> ''undefined'' | Some r \<Rightarrow> r))]"
    "blobs (w_store ws) (job_key jid) = Some (json_entry (last (w_written ws)))"
    "w_request ws = None" "w_deleted ws = []"
    "w_stripe ws = snd (verifyPayment (beta_mode env) sp (paymentIntentId b))"
    by blast
  with r h
  show "\<exists>ws. background_handler env (Some b) st sp = Inr ws
                  \<and> w_written ws =
                      [processing_record (t_started env),
                       job_error ''Payment failed: Payment already used'']
                  \<and> blobs (w_store ws) (job_key jid) =
                      Some (json_entry (job_error ''Payment failed: Payment already used''))
                  \<and> w_request ws = None \<and> w_deleted ws = [] \<and> w_stripe ws = sp"
    by simp
next
  assume v: "\<not> beta \<and> valid (fst (verifyPayment beta sp pid))"
  then have nb: "\<not> beta" and va: "valid (fst (verifyPayment beta sp pid))" by blast+
  have e: "verifyPayment_inline beta sp pid = verifyPayment beta sp pid"
    using va by (rule verifyPayment_inline_accepted)
  from verifyPayment_accepted [OF nb va] obtain q j where
    q: "pid = Some q \<and> q \<noteq> [] \<and> intents sp q = Some j
            \<and> status j = ''succeeded'' \<and> amount j \<in> {200, 500, 1000} \<and> currency j = ''aud''
            \<and> \<not> used j
            \<and> snd (verifyPayment beta sp pid) =
                sp\<lparr>intents := (intents sp)(q \<mapsto> j\<lparr>metadata := Some (mark_used j)\<rparr>)\<rparr>
            \<and> verifyPayment beta (snd (verifyPayment beta sp pid)) pid =
                (\<lparr>valid = False, reason = Some ''Payment already used''\<rparr>,
                 snd (verifyPayment beta sp pid))
            \<and> verifyPayment_inline beta (snd (verifyPayment beta sp pid)) pid =
                (\<lparr>valid = False, reason = Some ''Already used''\<rparr>,
                 snd (verifyPayment beta sp pid))"
    by blast
  show "\<exists>q j. pid = Some q \<and> q \<noteq> [] \<and> intents sp q = Some j
            \<and> status j = ''succeeded'' \<and> amount j \<in> {200, 500, 1000} \<and> currency j = ''aud''
            \<and> \<not> used j
            \<and> snd (verifyPayment beta sp pid) =
                sp\<lparr>intents := (intents sp)(q \<mapsto> j\<lparr>metadata := Some (mark_used j)\<rparr>)\<rparr>
            \<and> verifyPayment_inline beta sp pid = verifyPayment beta sp pid
            \<and> verifyPayment beta (snd (verifyPayment beta sp pid)) pid =
                (\<lparr>valid = False, reason = Some ''Payment already used''\<rparr>,
                 snd (verifyPayment beta sp pid))
            \<and> verifyPayment_inline beta (snd (verifyPayment beta sp pid)) pid =
                (\<lparr>valid = False, reason = Some ''Already used''\<rparr>,
                 snd (verifyPayment beta sp pid))"
    using q e by (intro exI [of _ q] exI [of _ j]) blast
next
  show "valid (fst (verifyPayment_inline beta sp pid)) = valid (fst (verifyPayment beta sp pid))"
    by (simp add: verifyPayment_inline_verdict)
next
  assume "\<forall>q j. intents sp q = Some j \<longrightarrow> \<not> used j"
  then show "sound sp" by (rule sound_unmarked)
next
  assume "sound sp"
  then show "sound (snd (verifyPayment beta sp pid))" by (rule sound_verifyPayment)
  then show "sound (snd (verifyPayment_inline beta sp pid))"
    by (simp add: verifyPayment_inline_verdict)
qed

theorem payment_single_use_witness:
  "valid (fst (verifyPayment False demo_paid (Some ''pi_1'')))
   \<and> sound (snd (verifyPayment False demo_paid (Some ''pi_1'')))
   \<and> verifyPayment False (snd (verifyPayment False demo_paid (Some ''pi_1''))) (Some ''pi_1'') =
       (\<lparr>valid = False, reason = Some ''Payment already used''\<rparr>,
        snd (verifyPayment False demo_paid (Some ''pi_1'')))
   \<and> verifyPayment_inline False (snd (verifyPayment False demo_paid (Some ''pi_1''))) (Some ''pi_1'') =
       (\<lparr>valid = False, reason = Some ''Already used''\<rparr>,
        snd (verifyPayment False demo_paid (Some ''pi_1'')))
   \<and> (\<exists>ws. background_handler (demo_env\<lparr>beta_mode := False\<rparr>) (Some demo_paid_body) demo_store
              (snd (verifyPayment False demo_paid (Some ''pi_1''))) = Inr ws
         \<and> w_written ws =
             [processing_record 1000, job_error ''Payment failed: Payment already used'']
         \<and> blobs (w_store ws) (job_key demo_jid) =
             Some (json_entry (job_error ''Payment failed: Payment already used''))
         \<and> w_request ws = None \<and> w_deleted ws = [])
   \<and> verifyPayment True demo_paid (Some ''pi_2'') = (\<lparr>valid = True, reason = None\<rparr>, demo_paid)"
proof -
  let ?env = "demo_env\<lparr>beta_mode := False\<rparr>"
  let ?i = "\<lparr>status = ''succeeded'', amount = 500, currency = ''aud'',
             metadata = Some [''report_generated'' \<mapsto> ''true'']\<rparr>"
  define sp' where "sp' = snd (verifyPayment False demo_paid (Some ''pi_1''))"
  have ts: "t_started ?env = 1000" and bm: "beta_mode ?env = False"
    by (simp_all add: demo_env_def)
  have v1: "valid (fst (verifyPayment False demo_paid (Some ''pi_1'')))"
    by (simp add: verifyPayment_def demo_paid_def falsy_def used_def
          paymentIntents_retrieve_def paymentIntents_update_def)
  have s0: "sound demo_paid"
    by (simp add: sound_def demo_paid_def used_def)
  note A = payment_single_use [where beta = False and sp = demo_paid and pid = "Some ''pi_1''"]
  from A s0 have s1: "sound sp'" unfolding sp'_def by blast
  from A v1 have again: "verifyPayment False sp' (Some ''pi_1'') =
                 (\<lparr>valid = False, reason = Some ''Payment already used''\<rparr>, sp')"
    and again_inline: "verifyPayment_inline False sp' (Some ''pi_1'') =
                 (\<lparr>valid = False, reason = Some ''Already used''\<rparr>, sp')"
    unfolding sp'_def by blast+
  have got: "paymentIntents_retrieve sp' ''pi_1'' = Inr ?i"
    unfolding sp'_def
    by (simp add: verifyPayment_def demo_paid_def falsy_def used_def mark_used_def
          paymentIntents_retrieve_def paymentIntents_update_def)
  have u: "used ?i" by (simp add: used_def)
  have pre: "\<not> False \<and> Some ''pi_1'' = Some ''pi_1'' \<and> ''pi_1'' \<noteq> []
             \<and> paymentIntents_retrieve sp' ''pi_1'' = Inr ?i \<and> used ?i"
    using got u by simp
  have run: "beta_mode ?env = False \<and> paymentIntentId demo_paid_body = Some ''pi_1''
               \<and> configured demo_store \<and> jobId demo_paid_body = Some demo_jid \<and> demo_jid \<noteq> []
               \<and> sessionId demo_paid_body = Some demo_sid \<and> demo_sid \<noteq> []
               \<and> \<not> set_fails demo_store (job_key demo_jid)"
    by (simp add: demo_env_def demo_store_def healthy_def demo_paid_body_def demo_jid_def
          demo_sid_def)
  note T = payment_single_use [where beta = False and sp = sp' and pid = "Some ''pi_1''"
             and b = demo_paid_body and p = "''pi_1''" and env = ?env
             and i = ?i and st = demo_store and jid = demo_jid and sid = demo_sid]
  from T pre s1 run obtain ws where
    "background_handler ?env (Some demo_paid_body) demo_store sp' = Inr ws"
    "w_written ws =
       [processing_record (t_started ?env), job_error ''Payment failed: Payment already used'']"
    "blobs (w_store ws) (job_key demo_jid) =
       Some (json_entry (job_error ''Payment failed: Payment already used''))"
    "w_request ws = None" "w_deleted ws = []"
    by blast
  then have job: "\<exists>ws. background_handler ?env (Some demo_paid_body) demo_store sp' = Inr ws
         \<and> w_written ws =
             [processing_record 1000, job_error ''Payment failed: Payment already used'']
         \<and> blobs (w_store ws) (job_key demo_jid) =
             Some (json_entry (job_error ''Payment failed: Payment already used''))
         \<and> w_request ws = None \<and> w_deleted ws = []"
    using ts by auto
  from payment_single_use [where beta = True and sp = demo_paid and pid = "Some ''pi_2''"]
  have by_pass: "verifyPayment True demo_paid (Some ''pi_2'') =
                   (\<lparr>valid = True, reason = None\<rparr>, demo_paid)"
    by blast
  from v1 s1 again again_inline job by_pass show ?thesis unfolding sp'_def by blast
qed

text \<open>
  With the bypass flag on the marker is not looked at: a reference that a verification has
  just accepted and marked is accepted again, the provider is left as it was, and the
  worker goes on to generation; so is a canceled intent.
\<close>

theorem payment_bypass_counterexample:
  "used (the (intents (snd (verifyPayment False demo_paid (Some ''pi_1''))) ''pi_1''))
   \<and> verifyPayment True (snd (verifyPayment False demo_paid (Some ''pi_1''))) (Some ''pi_1'') =
       (\<lparr>valid = True, reason = None\<rparr>, snd (verifyPayment False demo_paid (Some ''pi_1'')))
   \<and> used (the (intents demo_paid ''pi_2''))
   \<and> verifyPayment True demo_paid (Some ''pi_2'') = (\<lparr>valid = True, reason = None\<rparr>, demo_paid)
   \<and> verifyPayment_inline True demo_paid (Some ''pi_2'') =
       (\<lparr>valid = True, reason = None\<rparr>, demo_paid)
   \<and> verifyPayment True demo_paid (Some ''pi_3'') = (\<lparr>valid = True, reason = None\<rparr>, demo_paid)
   \<and> (case background_handler demo_env
              (Some \<lparr>sessionId = Some demo_sid, paymentIntentId = Some ''pi_2'',
                     jobId = Some demo_jid\<rparr>) demo_store demo_paid of
         Inr ws \<Rightarrow> (w_written ws, w_request ws \<noteq> None) | Inl e \<Rightarrow> ([], False))
       = ([processing_record 1000,
           complete_record ''LL-4FZYO'' ''<!DOCTYPE html><html></html>'' 2000], True)"
proof -
  have a: "used (the (intents (snd (verifyPayment False demo_paid (Some ''pi_1''))) ''pi_1''))"
    by (simp add: verifyPayment_def demo_paid_def falsy_def used_def mark_used_def
          paymentIntents_retrieve_def paymentIntents_update_def)
  have b: "used (the (intents demo_paid ''pi_2''))"
    by (simp add: demo_paid_def used_def)
  have c: "(case background_handler demo_env
              (Some \<lparr>sessionId = Some demo_sid, paymentIntentId = Some ''pi_2'',
                     jobId = Some demo_jid\<rparr>) demo_store demo_paid of
         Inr ws \<Rightarrow> (w_written ws, w_request ws \<noteq> None) | Inl e \<Rightarrow> ([], False))
       = ([processing_record 1000,
           complete_record ''LL-4FZYO'' ''<!DOCTYPE html><html></html>'' 2000], True)"
    by code_simp
  from a b c show ?thesis
    by (simp add: verifyPayment_bypass)
qed

subsection \<open>Output normalization\<close>

lemma indexOf_ge: "- 1 \<le> indexOf h p"
  by (induction h) (simp_all add: Let_def)

lemma indexOf_found:
  "indexOf h p \<noteq> - 1 \<Longrightarrow>
     occurs_at p h (nat (indexOf h p)) \<and> (\<forall>j < nat (indexOf h p). \<not> occurs_at p h j)"
proof (induction h)
  case Nil
  then show ?case by (simp add: occurs_at_def split: if_splits)
next
  case (Cons x xs)
  show ?case
  proof (cases "prefix p (x # xs)")
    case True
    then show ?thesis by (simp add: occurs_at_def)
  next
    case False
    with Cons.prems have r: "indexOf xs p \<noteq> - 1" and
      eq: "indexOf (x # xs) p = indexOf xs p + 1"
      by (simp_all add: Let_def split: if_splits)
    from indexOf_ge [of xs p] r have pos: "0 \<le> indexOf xs p" by linarith
    then have n: "nat (indexOf (x # xs) p) = Suc (nat (indexOf xs p))"
      using eq by simp
    from Cons.IH [OF r] have
      here: "occurs_at p xs (nat (indexOf xs p))" and
      before: "\<forall>j < nat (indexOf xs p). \<not> occurs_at p xs j"
      by simp_all
    have "occurs_at p (x # xs) (Suc (nat (indexOf xs p)))"
      using here by (simp add: occurs_at_def)
    moreover have "\<not> occurs_at p (x # xs) j" if "j < Suc (nat (indexOf xs p))" for j
    proof (cases j)
      case 0
      with False show ?thesis by (simp add: occurs_at_def)
    next
      case (Suc k)
      with that before show ?thesis by (simp add: occurs_at_def)
    qed
    ultimately show ?thesis using n by simp
  qed
qed

lemma indexOf_absent:
  "indexOf h p = - 1 \<Longrightarrow> \<not> occurs_at p h j"
proof (induction h arbitrary: j)
  case Nil
  then show ?case by (simp add: occurs_at_def split: if_splits)
next
  case (Cons x xs)
  from Cons.prems have np: "\<not> prefix p (x # xs)" and r: "indexOf xs p = - 1"
    using indexOf_ge [of xs p] by (auto simp: Let_def split: if_splits)
  show ?case
  proof (cases j)
    case 0
    with np show ?thesis by (simp add: occurs_at_def)
  next
    case (Suc k)
    with Cons.IH [OF r, of k] show ?thesis by (simp add: occurs_at_def)
  qed
qed

lemma lastIndexOf_ge: "- 1 \<le> lastIndexOf h p"
  by (induction h) (simp_all add: Let_def)

lemma lastIndexOf_absent:
  "lastIndexOf h p = - 1 \<Longrightarrow> \<not> occurs_at p h j"
proof (induction h arbitrary: j)
  case Nil
  then show ?case by (simp add: occurs_at_def split: if_splits)
next
  case (Cons x xs)
  from Cons.prems have np: "\<not> prefix p (x # xs)" and r: "lastIndexOf xs p = - 1"
    using lastIndexOf_ge [of xs p] by (auto simp: Let_def split: if_splits)
  show ?case
  proof (cases j)
    case 0
    with np show ?thesis by (simp add: occurs_at_def)
  next
    case (Suc k)
    with Cons.IH [OF r, of k] show ?thesis by (simp add: occurs_at_def)
  qed
qed

lemma lastIndexOf_found:
  "lastIndexOf h p \<noteq> - 1 \<Longrightarrow>
     occurs_at p h (nat (lastIndexOf h p)) \<and> (\<forall>j > nat (lastIndexOf h p). \<not> occurs_at p h j)"
proof (induction h)
  case Nil
  then show ?case by (simp add: occurs_at_def split: if_splits)
next
  case (Cons x xs)
  show ?case
  proof (cases "lastIndexOf xs p = - 1")
    case True
    with Cons.prems have pre: "prefix p (x # xs)" and z: "lastIndexOf (x # xs) p = 0"
      by (simp_all add: Let_def split: if_splits)
    have "\<not> occurs_at p (x # xs) j" if "0 < j" for j
    proof (cases j)
      case 0
      with that show ?thesis by simp
    next
      case (Suc k)
      with lastIndexOf_absent [OF True, of k] show ?thesis by (simp add: occurs_at_def)
    qed
    with pre z show ?thesis by (simp add: occurs_at_def)
  next
    case False
    then have eq: "lastIndexOf (x # xs) p = lastIndexOf xs p + 1"
      by (simp add: Let_def)
    from lastIndexOf_ge [of xs p] False have pos: "0 \<le> lastIndexOf xs p" by linarith
    then have n: "nat (lastIndexOf (x # xs) p) = Suc (nat (lastIndexOf xs p))"
      using eq by simp
    from Cons.IH [OF False] have
      here: "occurs_at p xs (nat (lastIndexOf xs p))" and
      after: "\<forall>j > nat (lastIndexOf xs p). \<not> occurs_at p xs j"
      by simp_all
    have "occurs_at p (x # xs) (Suc (nat (lastIndexOf xs p)))"
      using here by (simp add: occurs_at_def)
    moreover have "\<not> occurs_at p (x # xs) j" if "Suc (nat (lastIndexOf xs p)) < j" for j
    proof (cases j)
      case 0
      with that show ?thesis by simp
    next
      case (Suc k)
      with that after show ?thesis by (simp add: occurs_at_def)
    qed
    ultimately show ?thesis using n by simp
  qed
qed

lemma js_substring_slice:
  assumes "0 \<le> a" and "a \<le> b" and "b \<le> int (length s)"
  shows "js_substring s a b = take (nat (b - a)) (drop (nat a) s)"
  using assms by (simp add: js_substring_def Let_def min_def max_def)

lemma docStart_marker: "docStart_of h = indexOf h (start_marker h)"
  by (simp add: docStart_of_def start_marker_def)

lemma prefix_take_enough:
  "prefix p xs \<Longrightarrow> length p \<le> n \<Longrightarrow> prefix p (take n xs)"
  by (auto simp: prefix_def)

lemma end_after_start_marker:
  assumes "occurs_at (start_marker h) h s" and "occurs_at ''</html>'' h e" and "s < e"
  shows "s + length (start_marker h) \<le> e + 7"
proof (cases "start_marker h = ''<html''")
  case True
  with assms(3) show ?thesis by simp
next
  case False
  then have m: "start_marker h = ''<!DOCTYPE html>''"
    by (simp add: start_marker_def split: if_splits)
  show ?thesis
  proof (rule ccontr)
    assume "\<not> s + length (start_marker h) \<le> e + 7"
    with m assms(3) obtain d where d: "e = s + d" "1 \<le> d" "d < 8"
      by (auto intro: that [of "e - s"])
    from assms(1) m obtain zs where zs: "drop s h = ''<!DOCTYPE html>'' @ zs"
      by (auto simp: occurs_at_def prefix_def)
    have "drop e h = drop d (drop s h)"
      using d(1) by (simp add: add.commute)
    with zs have de: "drop e h = drop d (''<!DOCTYPE html>'' @ zs)" by simp
    from d(2,3) have "d = 1 \<or> d = 2 \<or> d = 3 \<or> d = 4 \<or> d = 5 \<or> d = 6 \<or> d = 7"
      by arith
    with de assms(2) show False
      by (auto simp: occurs_at_def)
  qed
qed

text \<open>
  Normalization when the markers are in order. Let \<open>h\<close> be the output with the code-fence
  markers removed and the result trimmed. If the start marker (\<^verbatim>\<open><!DOCTYPE html>\<close>, or
  \<^verbatim>\<open><html\<close> when that does not occur) or the end marker \<^verbatim>\<open></html>\<close> does not occur in
  \<open>h\<close>, the stored body is \<open>h\<close>. If both occur and the first start marker lies before the
  last end marker, the stored body is the part of \<open>h\<close> from the first occurrence of the
  start marker through the end of the last occurrence of the end marker: it begins with
  the start marker and ends with \<^verbatim>\<open></html>\<close>.
\<close>

theorem normalize_extracts:
  assumes "h = strip_fences t"
  shows "(docStart_of h = - 1 \<or> docEnd_of h = - 1 \<longrightarrow> normalize t = h)
       \<and> (docStart_of h \<noteq> - 1 \<and> docEnd_of h \<noteq> - 1 \<and> docStart_of h < docEnd_of h \<longrightarrow>
            normalize t = take (nat (docEnd_of h + 7 - docStart_of h)) (drop (nat (docStart_of h)) h)
          \<and> occurs_at (start_marker h) h (nat (docStart_of h))
          \<and> (\<forall>j < nat (docStart_of h). \<not> occurs_at (start_marker h) h j)
          \<and> occurs_at ''</html>'' h (nat (docEnd_of h))
          \<and> (\<forall>j > nat (docEnd_of h). \<not> occurs_at ''</html>'' h j)
          \<and> prefix (start_marker h) (normalize t)
          \<and> suffix ''</html>'' (normalize t))"
proof (intro conjI impI)
  assume "docStart_of h = - 1 \<or> docEnd_of h = - 1"
  with assms show "normalize t = h"
    by (auto simp: normalize_def Let_def)
next
  assume a: "docStart_of h \<noteq> - 1 \<and> docEnd_of h \<noteq> - 1 \<and> docStart_of h < docEnd_of h"
  let ?s = "docStart_of h" and ?e = "docEnd_of h"
  from a have sf: "indexOf h (start_marker h) \<noteq> - 1"
    by (simp add: docStart_marker)
  from indexOf_found [OF sf]
  show s1: "occurs_at (start_marker h) h (nat ?s)"
    and s2: "\<forall>j < nat ?s. \<not> occurs_at (start_marker h) h j"
    by (simp_all add: docStart_marker)
  from a have ef: "lastIndexOf h ''</html>'' \<noteq> - 1"
    by (simp add: docEnd_of_def)
  from lastIndexOf_found [OF ef]
  show e1: "occurs_at ''</html>'' h (nat ?e)"
    and e2: "\<forall>j > nat ?e. \<not> occurs_at ''</html>'' h j"
    by (simp_all add: docEnd_of_def)
  from a indexOf_ge [of h "start_marker h"] have s0: "0 \<le> ?s"
    by (simp add: docStart_marker)
  with a have e0: "0 \<le> ?e" by simp
  from e1 obtain zs where zs: "drop (nat ?e) h = ''</html>'' @ zs"
    by (auto simp: occurs_at_def prefix_def)
  then have "length (drop (nat ?e) h) = 7 + length zs" by simp
  then have fits: "?e + 7 \<le> int (length h)" using e0 by simp
  from a assms s0 fits
  show n: "normalize t = take (nat (?e + 7 - ?s)) (drop (nat ?s) h)"
    by (simp add: normalize_def Let_def js_substring_slice)
  from a s0 e0 have lt: "nat ?s < nat ?e" by simp
  from end_after_start_marker [OF s1 e1 lt] s0 e0
  have "length (start_marker h) \<le> nat (?e + 7 - ?s)" by simp
  with s1 show "prefix (start_marker h) (normalize t)"
    unfolding n by (intro prefix_take_enough) (simp_all add: occurs_at_def)
  from a s0 e0 have split: "nat (?e + 7 - ?s) = (nat ?e - nat ?s) + 7" by simp
  have "b - a + a = b" if "a < b" for a b :: nat
    using that by simp
  from this [OF lt] have "nat ?e - nat ?s + nat ?s = nat ?e" .
  then have "drop (nat ?e - nat ?s) (drop (nat ?s) h) = drop (nat ?e) h"
    by (simp only: drop_drop)
  with zs have "take (nat (?e + 7 - ?s)) (drop (nat ?s) h)
                  = take (nat ?e - nat ?s) (drop (nat ?s) h) @ ''</html>''"
    unfolding split by (simp only: take_add) simp
  then show "suffix ''</html>'' (normalize t)"
    unfolding n by (simp add: suffix_def)
qed

theorem normalize_extracts_witness:
  "normalize (fence @ ''html'' @ nl @ ''Sure: <!DOCTYPE html><html>x</html>'' @ nl @ fence @ '' bye'')
     = ''<!DOCTYPE html><html>x</html>''
   \<and> normalize (fence @ ''no document'' @ nl) = ''no document''"
proof -
  let ?t = "fence @ ''html'' @ nl @ ''Sure: <!DOCTYPE html><html>x</html>'' @ nl @ fence @ '' bye''"
  let ?h = "''Sure: <!DOCTYPE html><html>x</html>'' @ nl @ '' bye''"
  have h: "?h = strip_fences ?t" by code_simp
  have s: "docStart_of ?h = 6" and e: "docEnd_of ?h = 28" by code_simp+
  from normalize_extracts [OF h] s e
  have "normalize ?t = take (nat (28 + 7 - 6)) (drop (nat 6) ?h)" by simp
  also have "\<dots> = ''<!DOCTYPE html><html>x</html>''" by code_simp
  finally have a: "normalize ?t = ''<!DOCTYPE html><html>x</html>''" .
  have h2: "''no document'' = strip_fences (fence @ ''no document'' @ nl)" by code_simp
  have s2: "docStart_of ''no document'' = - 1" by code_simp
  from normalize_extracts [OF h2] s2
  have b: "normalize (fence @ ''no document'' @ nl) = ''no document''" by simp
  from a b show ?thesis by simp
qed

text \<open>
  C6 at an output whose last end marker precedes its first start marker. Both markers
  are found, \<^verbatim>\<open>substring(docStart, docEnd + 7)\<close> swaps its bounds, and the stored body is
  what lies between the two markers: it neither begins with the start marker nor ends
  with the end marker.
\<close>

theorem normalize_reversed_markers:
  "docStart_of (strip_fences ''</html> and then <html>'') = 17
   \<and> docEnd_of (strip_fences ''</html> and then <html>'') = 0
   \<and> normalize ''</html> and then <html>'' = '' and then ''
   \<and> normalize ''</html><html'' = []"
  by code_simp

subsection \<open>Fetching the session's assets\<close>

lemma fetch_from_map_filter:
  "fetch_from st sid n i = List.map_filter (fetch_asset st sid) [i..<n]"
proof (induction st sid n i rule: fetch_from.induct)
  case (1 st sid n i)
  show ?case
  proof (cases "i < n")
    case True
    then have u: "[i..<n] = i # [Suc i..<n]" by (simp add: upt_conv_Cons)
    show ?thesis
      using True "1.IH"
      by (subst fetch_from.simps) (simp add: u map_filter_simps split: option.splits)
  next
    case False
    then show ?thesis by (subst fetch_from.simps) (simp add: map_filter_simps)
  qed
qed


lemma fetch_asset_same:
  assumes "same_faults s st" and "blobs s (asset_key sid i) = blobs st (asset_key sid i)"
  shows "fetch_asset s sid i = fetch_asset st sid i"
  using assms
  by (simp add: fetch_asset_def store_get_arrayBuffer_def store_getMetadata_def same_faults_def)

lemma outside_session_keys:
  assumes "\<not> prefix (sid @ ''/'') (job_key jid)"
  shows "job_key jid \<noteq> meta_key sid" and "job_key jid \<noteq> asset_key sid i"
  using assms by (auto simp: meta_key_def asset_key_def prefix_def)

lemma fetch_from_job_only:
  assumes "job_only st jid ws" and "\<not> prefix (sid @ ''/'') (job_key jid)"
  shows "fetch_from (w_store ws) sid n 0 = List.map_filter (fetch_asset st sid) [0..<n]"
proof -
  have "fetch_asset (w_store ws) sid i = fetch_asset st sid i" for i
    using assms outside_session_keys(2) [OF assms(2), of i]
    by (intro fetch_asset_same) (auto simp: job_only_def)
  then have "fetch_asset (w_store ws) sid = fetch_asset st sid" by (rule ext)
  then show ?thesis by (simp add: fetch_from_map_filter)
qed

lemma worker_reaches_generation:
  assumes "configured st" and "jobId b = Some jid" and "jid \<noteq> []"
    and "sessionId b = Some sid" and "sid \<noteq> []"
    and "\<not> prefix (sid @ ''/'') (job_key jid)"
    and "valid (fst (verifyPayment (beta_mode env) sp (paymentIntentId b)))"
    and "\<not> get_fails st (meta_key sid)"
    and "blobs st (meta_key sid) = Some e" and "content e = Json m"
  shows "\<exists>ws. job_only st jid ws \<and> w_request ws = None
           \<and> w_written ws = (if set_fails st (job_key jid) then []
                              else [processing_record (t_started env)])
           \<and> background_handler env (Some b) st sp = Inr (generate_and_store env ws jid sid m)"
proof -
  define ws0 where
    "ws0 = \<lparr>w_store = st, w_stripe = sp, w_written = [], w_request = None, w_deleted = []\<rparr>"
  define ws where
    "ws = (setJobStatus ws0 jid (processing_record (t_started env)))
            \<lparr>w_stripe := snd (verifyPayment (beta_mode env) sp (paymentIntentId b))\<rparr>"
  have j0: "job_only st jid ws0"
    by (simp add: job_only_def ws0_def same_faults_def)
  then have j: "job_only st jid ws"
    unfolding ws_def by (intro job_only_fields job_only_setJobStatus)
  have r: "w_request ws = None"
    by (simp add: ws_def ws0_def setJobStatus_simps)
  have w: "w_written ws = (if set_fails st (job_key jid) then []
                            else [processing_record (t_started env)])"
    by (simp add: ws_def ws0_def setJobStatus_simps)
  from j have sf: "get_fails (w_store ws) = get_fails st"
    by (simp add: job_only_def same_faults_def)
  from j outside_session_keys(1) [OF assms(6)] assms(9)
  have bm: "blobs (w_store ws) (meta_key sid) = Some e"
    by (auto simp: job_only_def)
  have meta: "store_get_json (w_store (setJobStatus ws0 jid (processing_record (t_started env))))
                (meta_key sid) = Inr (Some m)"
    using sf bm assms(8,10) by (simp add: store_get_json_def ws_def)
  have sp0: "w_stripe ws0 = sp" by (simp add: ws0_def)
  have "background_handler env (Some b) st sp = Inr (generate_and_store env ws jid sid m)"
    using assms(1-5,7)
    by (simp add: background_handler_def getStore_def falsy_def Let_def split_def
          ws0_def [symmetric] setJobStatus_simps meta sp0 ws_def)
  with j r w show ?thesis by blast
qed

lemma catch_all_simps:
  "w_request (catch_all ws jid msg) = w_request ws"
  "w_deleted (catch_all ws jid msg) = w_deleted ws"
  by (simp_all add: catch_all_def setJobStatus_simps split: sum.splits)

lemma generate_and_store_no_assets:
  assumes "field m ''category'' = Some (JStr cat)" and "cat \<in> set VALID_CATEGORIES"
    and "fetch_from (w_store ws) sid (count_of (field m ''screenshotCount'')) 0 = []"
  shows "generate_and_store env ws jid sid m = setJobStatus ws jid assets_expired"
  using assms by (simp add: generate_and_store_def assets_expired_def)

lemma generate_and_store_no_prompt:
  assumes "field m ''category'' = Some (JStr cat)" and "cat \<in> set VALID_CATEGORIES"
    and "fetch_from (w_store ws) sid (count_of (field m ''screenshotCount'')) 0 \<noteq> []"
    and "falsy (select_prompt (loadPrompt env) cat)"
  shows "generate_and_store env ws jid sid m =
           setJobStatus ws jid (job_error ''Prompt configuration error'')"
  using assms by (simp add: generate_and_store_def Let_def)

lemma generate_and_store_request:
  assumes "field m ''category'' = Some (JStr cat)" and "cat \<in> set VALID_CATEGORIES"
    and "fetch_from (w_store ws) sid (count_of (field m ''screenshotCount'')) 0 = shots"
    and "shots \<noteq> []"
    and "\<not> falsy (select_prompt (loadPrompt env) cat)"
  shows "\<exists>req. w_request (generate_and_store env ws jid sid m) = Some req
           \<and> g_images req = shots"
  using assms
  by (simp add: generate_and_store_def Let_def catch_all_simps setJobStatus_simps
        split: sum.splits)

lemma generate_and_store_written:
  assumes "configured (w_store ws)" and "\<not> set_fails (w_store ws) (job_key jid)"
  shows "(\<exists>msg. w_written (generate_and_store env ws jid sid m) = w_written ws @ [job_error msg])
       \<or> (\<exists>rid html. w_written (generate_and_store env ws jid sid m)
             = w_written ws @ [complete_record rid html (t_completed env)])"
  using assms
  by (auto simp: generate_and_store_def Let_def catch_all_def getStore_def setJobStatus_simps
        assets_expired_def split: sum.splits option.splits jval.splits)

lemma count_of_num: "count_of (Some (JNum (int n))) = n"
  by (simp add: count_of_def)

lemma generate_and_store_outcome:
  assumes "field m ''category'' = Some (JStr cat)" and "cat \<in> set VALID_CATEGORIES"
    and "fetch_from (w_store ws) sid (count_of (field m ''screenshotCount'')) 0 = shots"
    and "shots \<noteq> []"
    and "\<not> falsy (select_prompt (loadPrompt env) cat)"
    and "configured (w_store ws)" and "\<not> set_fails (w_store ws) (job_key jid)"
    and "req = \<lparr>g_model = ''claude-sonnet-4-6'', g_max_tokens = 8000,
                g_system = the (select_prompt (loadPrompt env) cat)
                   @ prompt_footer (mint_reportId (random36 env)) (today env) (length shots) cat,
                g_images = shots,
                g_text = ''Analyse this '' @ cat
                   @ '' listing and generate the complete Listing Lens buyer intelligence report as standalone HTML.''\<rparr>"
  shows "w_request (generate_and_store env ws jid sid m) = Some req"
    and "generate env req = Inr blocks \<Longrightarrow>
           w_written (generate_and_store env ws jid sid m) =
             w_written ws @
             [complete_record (mint_reportId (random36 env))
                (normalize (concat (map b_text (filter (\<lambda>b. b_type b = ''text'') blocks))))
                (t_completed env)]
         \<and> w_deleted (generate_and_store env ws jid sid m) =
             cleanup_keys sid (count_of (field m ''screenshotCount''))"
    and "generate env req = Inl msg \<Longrightarrow>
           w_written (generate_and_store env ws jid sid m) =
             w_written ws @ [job_error (if msg = [] then ''Unknown error'' else msg)]
         \<and> w_deleted (generate_and_store env ws jid sid m) = w_deleted ws"
proof -
  show "w_request (generate_and_store env ws jid sid m) = Some req"
    using assms(1-5,8)
    by (simp add: generate_and_store_def Let_def catch_all_simps setJobStatus_simps
          split: sum.splits)
  show "w_written (generate_and_store env ws jid sid m) =
             w_written ws @
             [complete_record (mint_reportId (random36 env))
                (normalize (concat (map b_text (filter (\<lambda>b. b_type b = ''text'') blocks))))
                (t_completed env)]
         \<and> w_deleted (generate_and_store env ws jid sid m) =
             cleanup_keys sid (count_of (field m ''screenshotCount''))"
    if "generate env req = Inr blocks"
    using assms(1-5,7) that [unfolded assms(8)]
    by (simp add: generate_and_store_def Let_def setJobStatus_simps)
  show "w_written (generate_and_store env ws jid sid m) =
             w_written ws @ [job_error (if msg = [] then ''Unknown error'' else msg)]
         \<and> w_deleted (generate_and_store env ws jid sid m) = w_deleted ws"
    if "generate env req = Inl msg"
    using assms(1-7) that [unfolded assms(8)]
    by (simp add: generate_and_store_def Let_def catch_all_def getStore_def setJobStatus_simps)
qed

lemma worker_run:
  assumes "configured st" and "jobId b = Some jid" and "jid \<noteq> []"
    and "sessionId b = Some sid" and "sid \<noteq> []"
    and "\<not> prefix (sid @ ''/'') (job_key jid)"
    and "valid (fst (verifyPayment (beta_mode env) sp (paymentIntentId b)))"
    and "\<not> get_fails st (meta_key sid)"
    and "blobs st (meta_key sid) = Some e" and "content e = Json m"
    and "field m ''category'' = Some (JStr cat)" and "cat \<in> set VALID_CATEGORIES"
    and "\<not> set_fails st (job_key jid)"
    and "field m ''screenshotCount'' = Some (JNum (int n))"
    and "shots = List.map_filter (fetch_asset st sid) [0..<n]"
  shows "\<exists>ws. background_handler env (Some b) st sp = Inr ws
           \<and> blobs (w_store ws) (job_key jid) = Some (json_entry (last (w_written ws)))
           \<and> (shots = [] \<longrightarrow>
                 w_request ws = None \<and> w_deleted ws = []
               \<and> w_written ws = [processing_record (t_started env), assets_expired])
           \<and> (shots \<noteq> [] \<and> falsy (select_prompt (loadPrompt env) cat) \<longrightarrow>
                 w_request ws = None \<and> w_deleted ws = []
               \<and> w_written ws = [processing_record (t_started env),
                                  job_error ''Prompt configuration error''])
           \<and> (shots \<noteq> [] \<and> \<not> falsy (select_prompt (loadPrompt env) cat) \<longrightarrow>
                 w_request ws = Some (generation_request env cat shots)
               \<and> (\<forall>blocks. generate env (generation_request env cat shots) = Inr blocks \<longrightarrow>
                     w_written ws =
                       [processing_record (t_started env),
                        complete_record (mint_reportId (random36 env))
                          (normalize (concat (map b_text (filter (\<lambda>b. b_type b = ''text'') blocks))))
                          (t_completed env)]
                   \<and> w_deleted ws = cleanup_keys sid n)
               \<and> (\<forall>msg. generate env (generation_request env cat shots) = Inl msg \<longrightarrow>
                     w_written ws =
                       [processing_record (t_started env),
                        job_error (if msg = [] then ''Unknown error'' else msg)]
                   \<and> w_deleted ws = []))"
proof -
  from worker_reaches_generation [OF assms(1-10)] obtain ws0 where
    j: "job_only st jid ws0" and r: "w_request ws0 = None"
    and w: "w_written ws0 = [processing_record (t_started env)]"
    and run: "background_handler env (Some b) st sp = Inr (generate_and_store env ws0 jid sid m)"
    using assms(13) by auto
  let ?ws = "generate_and_store env ws0 jid sid m"
  from j have d: "w_deleted ws0 = []" and nf: "\<not> set_fails (w_store ws0) (job_key jid)"
    and cf: "configured (w_store ws0)"
    using assms(1,13) by (simp_all add: job_only_def same_faults_def)
  have cnt: "count_of (field m ''screenshotCount'') = n"
    using assms(14) by (simp add: count_of_num)
  have f: "fetch_from (w_store ws0) sid (count_of (field m ''screenshotCount'')) 0 = shots"
    using fetch_from_job_only [OF j assms(6)] assms(15) cnt by simp
  have none: "w_request ?ws = None \<and> w_deleted ?ws = []
                \<and> w_written ?ws = [processing_record (t_started env), assets_expired]"
    if "shots = []"
    using generate_and_store_no_assets [OF assms(11,12), of ws0 sid env jid] f that r d w nf
    by (simp add: setJobStatus_simps)
  have noprompt: "w_request ?ws = None \<and> w_deleted ?ws = []
                 \<and> w_written ?ws = [processing_record (t_started env),
                                     job_error ''Prompt configuration error'']"
    if "shots \<noteq> [] \<and> falsy (select_prompt (loadPrompt env) cat)"
    using generate_and_store_no_prompt [OF assms(11,12), of ws0 sid env jid] f that r d w nf
    by (simp add: setJobStatus_simps)
  have some: "w_request ?ws = Some (generation_request env cat shots)
               \<and> (\<forall>blocks. generate env (generation_request env cat shots) = Inr blocks \<longrightarrow>
                     w_written ?ws =
                       [processing_record (t_started env),
                        complete_record (mint_reportId (random36 env))
                          (normalize (concat (map b_text (filter (\<lambda>b. b_type b = ''text'') blocks))))
                          (t_completed env)]
                   \<and> w_deleted ?ws = cleanup_keys sid n)
               \<and> (\<forall>msg. generate env (generation_request env cat shots) = Inl msg \<longrightarrow>
                     w_written ?ws =
                       [processing_record (t_started env),
                        job_error (if msg = [] then ''Unknown error'' else msg)]
                   \<and> w_deleted ?ws = [])"
    if t: "shots \<noteq> [] \<and> \<not> falsy (select_prompt (loadPrompt env) cat)"
  proof -
    from t have t1: "shots \<noteq> []" and t2: "\<not> falsy (select_prompt (loadPrompt env) cat)"
      by blast+
    note O = generate_and_store_outcome [OF assms(11,12) f t1 t2 cf nf generation_request_def]
    from O(1) O(2) O(3) w d cnt show ?thesis by simp
  qed
  from generate_and_store_written [OF cf nf, of env sid m] w
  have ne: "w_written ?ws \<noteq> []" by auto
  from frame_background_handler [OF run assms(2,4)]
  have fr: "worker_frame st jid sid ?ws" .
  have out: "job_key jid \<notin> set (w_deleted ?ws)"
    using fr assms(6) cleanup_keys_prefix [of "job_key jid" sid]
    by (auto simp: worker_frame_def)
  from fr out ne
  have key: "blobs (w_store ?ws) (job_key jid) = Some (json_entry (last (w_written ?ws)))"
    by (simp add: worker_frame_def)
  from run key none noprompt some show ?thesis by blast
qed




subsection \<open>Timestamps of a job's records\<close>

lemma written_shape:
  assumes "configured st" and "jobId b = Some jid" and "jid \<noteq> []"
    and "sessionId b = Some sid" and "sid \<noteq> []"
    and "\<not> set_fails st (job_key jid)"
  shows "\<exists>ws. background_handler env (Some b) st sp = Inr ws
           \<and> ((\<exists>msg. w_written ws = [processing_record (t_started env), job_error msg])
              \<or> (\<exists>rid html. w_written ws =
                    [processing_record (t_started env),
                     complete_record rid html (t_completed env)]))"
proof -
  define ws0 where
    "ws0 = \<lparr>w_store = st, w_stripe = sp, w_written = [], w_request = None, w_deleted = []\<rparr>"
  define vp where "vp = verifyPayment (beta_mode env) sp (paymentIntentId b)"
  define ws2 where
    "ws2 = (setJobStatus ws0 jid (processing_record (t_started env)))\<lparr>w_stripe := snd vp\<rparr>"
  have w2: "w_written ws2 = [processing_record (t_started env)]"
    and c2: "configured (w_store ws2)"
    and n2: "\<not> set_fails (w_store ws2) (job_key jid)"
    using assms(1,6) by (simp_all add: ws2_def ws0_def setJobStatus_simps setJobStatus_faults)
  define out where
    "out = (if \<not> valid (fst vp)
              then setJobStatus ws2 jid
                     (job_error (''Payment failed: ''
                        @ (case reason (fst vp) of None \<Rightarrow> ''undefined'' | Some r \<Rightarrow> r)))
            else case (case store_get_json (w_store ws2) (meta_key sid) of
                         Inl _ \<Rightarrow> None | Inr m \<Rightarrow> m) of
                   None \<Rightarrow> setJobStatus ws2 jid
                             (job_error (''Session expired '' @ em_dash @ '' please re-upload.''))
                 | Some m \<Rightarrow> generate_and_store env ws2 jid sid m)"
  have sp0: "w_stripe ws0 = sp" by (simp add: ws0_def)
  have run: "background_handler env (Some b) st sp = Inr out"
    using assms(1-5)
    by (simp add: background_handler_def getStore_def falsy_def Let_def split_def
          ws0_def [symmetric] setJobStatus_simps sp0 out_def ws2_def vp_def
          split: option.splits sum.splits)
  have "(\<exists>msg. w_written out = [processing_record (t_started env), job_error msg])
          \<or> (\<exists>rid html. w_written out =
                [processing_record (t_started env), complete_record rid html (t_completed env)])"
  proof (cases "valid (fst vp)")
    case False
    then show ?thesis using w2 n2 by (auto simp add: out_def setJobStatus_simps)
  next
    case True
    show ?thesis
    proof (cases "case store_get_json (w_store ws2) (meta_key sid) of Inl _ \<Rightarrow> None | Inr m \<Rightarrow> m")
      case None
      with True show ?thesis using w2 n2 by (auto simp add: out_def setJobStatus_simps)
    next
      case (Some m)
      with True have o: "out = generate_and_store env ws2 jid sid m"
        by (simp add: out_def)
      from generate_and_store_written [OF c2 n2, of env sid m] w2
      show ?thesis unfolding o by simp
    qed
  qed
  with run show ?thesis by blast
qed

lemma stamps_records:
  "stamps (queued_record t) = [t]"
  "stamps (processing_record t) = [t]"
  "stamps (complete_record rid html t) = [t]"
  "stamps (job_error msg) = []"
  by (simp_all add: stamps_def queued_record_def processing_record_def complete_record_def
        job_error_def map_filter_simps)

lemma dispatched_store:
  assumes "\<not> prefix (sid @ ''/'') (job_key jid)"
    and "st1 = st\<lparr>blobs := (blobs st)(job_key jid \<mapsto> json_entry q)\<rparr>"
  shows "blobs st1 (meta_key sid) = blobs st (meta_key sid)"
    and "fetch_asset st1 sid = fetch_asset st sid"
proof -
  show "blobs st1 (meta_key sid) = blobs st (meta_key sid)"
    using outside_session_keys(1) [OF assms(1)] by (simp add: assms(2))
  have "fetch_asset st1 sid i = fetch_asset st sid i" for i
    using outside_session_keys(2) [OF assms(1), of i]
    by (intro fetch_asset_same) (simp_all add: assms(2) same_faults_def)
  then show "fetch_asset st1 sid = fetch_asset st sid" by (rule ext)
qed

text \<open>
  C8, as the two handlers implement it. Follow one job from an accepted dispatch through
  the worker's run. The records written under the job key are the \<^verbatim>\<open>queued\<close> record, then
  the \<^verbatim>\<open>processing\<close> record, then one terminal record, each replacing the one before. The
  \<^verbatim>\<open>queued\<close> record carries as \<^verbatim>\<open>queuedAt\<close> the dispatcher's clock reading at that write,
  the \<^verbatim>\<open>processing\<close> record carries as \<^verbatim>\<open>startedAt\<close> the worker's reading at its start, and
  a \<^verbatim>\<open>complete\<close> record carries as \<^verbatim>\<open>completedAt\<close> the worker's reading at completion; an
  \<^verbatim>\<open>error\<close> record carries no timestamp. On the run that generates a report (payment
  accepted, category valid, at least one asset, a prompt template, an answer from the
  generation collaborator) the terminal record is the \<^verbatim>\<open>complete\<close> record, it is what the
  job key holds at the end, and the timestamps recorded are the three readings in that
  order. The recorded timestamps are non-decreasing exactly when the readings are: the
  handlers compare no two of them.
\<close>

theorem timestamps_recorded:
  assumes "d_method ev = ''POST''" and "d_body ev = Some b"
    and "sessionId b = Some sid" and "sid \<noteq> []" and "configured st"
    and "\<not> get_fails st (meta_key sid)"
    and "blobs st (meta_key sid) = Some e" and "content e = Json m"
    and "\<not> expired (t_check denv) m"
    and "\<not> set_fails st (job_key (mint_id (uuid_random denv)))"
  shows "\<exists>resp st1 fr ws.
           generate_report denv ev st = (resp, st1, Some fr)
         \<and> blobs st1 (job_key (mint_id (uuid_random denv)))
             = Some (json_entry (queued_record (t_queued denv)))
         \<and> field (queued_record (t_queued denv)) ''queuedAt'' = Some (JDate (t_queued denv))
         \<and> background_handler wenv (Some (payload fr)) st1 sp = Inr ws
         \<and> hd (w_written ws) = processing_record (t_started wenv)
         \<and> field (hd (w_written ws)) ''startedAt'' = Some (JDate (t_started wenv))
         \<and> ((\<exists>msg. w_written ws = [processing_record (t_started wenv), job_error msg]
                \<and> concat (map stamps (queued_record (t_queued denv) # w_written ws))
                    = [t_queued denv, t_started wenv]
                \<and> (sorted (concat (map stamps (queued_record (t_queued denv) # w_written ws)))
                     \<longleftrightarrow> t_queued denv \<le> t_started wenv))
            \<or> (\<exists>rid html.
                  w_written ws = [processing_record (t_started wenv),
                                  complete_record rid html (t_completed wenv)]
                \<and> field (last (w_written ws)) ''completedAt'' = Some (JDate (t_completed wenv))
                \<and> concat (map stamps (queued_record (t_queued denv) # w_written ws))
                    = [t_queued denv, t_started wenv, t_completed wenv]
                \<and> (sorted (concat (map stamps (queued_record (t_queued denv) # w_written ws)))
                     \<longleftrightarrow> t_queued denv \<le> t_started wenv \<and> t_started wenv \<le> t_completed wenv)))
         \<and> (\<not> prefix (sid @ ''/'') (job_key (mint_id (uuid_random denv)))
              \<and> valid (fst (verifyPayment (beta_mode wenv) sp (paymentIntentId b)))
              \<and> field m ''category'' = Some (JStr cat) \<and> cat \<in> set VALID_CATEGORIES
              \<and> field m ''screenshotCount'' = Some (JNum (int n))
              \<and> shots = List.map_filter (fetch_asset st sid) [0..<n] \<and> shots \<noteq> []
              \<and> \<not> falsy (select_prompt (loadPrompt wenv) cat)
              \<and> generate wenv (generation_request wenv cat shots) = Inr blocks \<longrightarrow>
                w_written ws =
                  [processing_record (t_started wenv),
                   complete_record (mint_reportId (random36 wenv))
                     (normalize (concat (map b_text (filter (\<lambda>b. b_type b = ''text'') blocks))))
                     (t_completed wenv)]
              \<and> blobs (w_store ws) (job_key (mint_id (uuid_random denv))) =
                  Some (json_entry
                    (complete_record (mint_reportId (random36 wenv))
                       (normalize (concat (map b_text (filter (\<lambda>b. b_type b = ''text'') blocks))))
                       (t_completed wenv)))
              \<and> concat (map stamps (queued_record (t_queued denv) # w_written ws))
                  = [t_queued denv, t_started wenv, t_completed wenv])"
proof -
  let ?jid = "mint_id (uuid_random denv)"
  let ?st1 = "st\<lparr>blobs := (blobs st)(job_key ?jid \<mapsto> json_entry (queued_record (t_queued denv)))\<rparr>"
  let ?b1 = "\<lparr>sessionId = Some sid, paymentIntentId = paymentIntentId b, jobId = Some ?jid\<rparr>"
  let ?fr = "\<lparr>url = bgUrl ev, payload = ?b1\<rparr>"
  let ?q = "queued_record (t_queued denv)"
  from generate_report_live [OF assms(1-10)] obtain resp where
    d: "generate_report denv ev st = (resp, ?st1, Some ?fr)"
    by blast
  have jid: "?jid \<noteq> []" using length_mint_id [of "uuid_random denv"] by auto
  have c1: "configured ?st1" and nf1: "\<not> set_fails ?st1 (job_key ?jid)"
    using assms(5,10) by simp_all
  from written_shape [of ?st1 ?b1 ?jid sid wenv sp] assms(4) c1 nf1 jid
  obtain ws where run: "background_handler wenv (Some ?b1) ?st1 sp = Inr ws"
    and shape: "(\<exists>msg. w_written ws = [processing_record (t_started wenv), job_error msg])
              \<or> (\<exists>rid html. w_written ws =
                    [processing_record (t_started wenv),
                     complete_record rid html (t_completed wenv)])"
    by auto
  from shape have h: "hd (w_written ws) = processing_record (t_started wenv)"
    by auto
  have qa: "field ?q ''queuedAt'' = Some (JDate (t_queued denv))"
    by (simp add: field_def queued_record_def)
  have sa: "field (hd (w_written ws)) ''startedAt'' = Some (JDate (t_started wenv))"
    unfolding h by (simp add: field_def processing_record_def)
  have ca: "field (complete_record rid html t) ''completedAt'' = Some (JDate t)" for rid html t
    by (simp add: field_def complete_record_def)
  have q: "blobs ?st1 (job_key ?jid) = Some (json_entry ?q)"
    by simp
  from shape
  have cases: "(\<exists>msg. w_written ws = [processing_record (t_started wenv), job_error msg]
                \<and> concat (map stamps (?q # w_written ws)) = [t_queued denv, t_started wenv]
                \<and> (sorted (concat (map stamps (?q # w_written ws)))
                     \<longleftrightarrow> t_queued denv \<le> t_started wenv))
            \<or> (\<exists>rid html.
                  w_written ws = [processing_record (t_started wenv),
                                  complete_record rid html (t_completed wenv)]
                \<and> field (last (w_written ws)) ''completedAt'' = Some (JDate (t_completed wenv))
                \<and> concat (map stamps (?q # w_written ws))
                    = [t_queued denv, t_started wenv, t_completed wenv]
                \<and> (sorted (concat (map stamps (?q # w_written ws)))
                     \<longleftrightarrow> t_queued denv \<le> t_started wenv \<and> t_started wenv \<le> t_completed wenv))"
  proof (elim disjE exE)
    fix msg
    assume w: "w_written ws = [processing_record (t_started wenv), job_error msg]"
    then show ?thesis by (intro disjI1 exI [of _ msg]) (simp add: stamps_records)
  next
    fix rid html
    assume w: "w_written ws = [processing_record (t_started wenv),
                               complete_record rid html (t_completed wenv)]"
    then show ?thesis
      by (intro disjI2 exI [of _ rid] exI [of _ html]) (auto simp add: stamps_records ca)
  qed
  have success: "w_written ws =
                  [processing_record (t_started wenv),
                   complete_record (mint_reportId (random36 wenv))
                     (normalize (concat (map b_text (filter (\<lambda>b. b_type b = ''text'') blocks))))
                     (t_completed wenv)]
              \<and> blobs (w_store ws) (job_key ?jid) =
                  Some (json_entry
                    (complete_record (mint_reportId (random36 wenv))
                       (normalize (concat (map b_text (filter (\<lambda>b. b_type b = ''text'') blocks))))
                       (t_completed wenv)))
              \<and> concat (map stamps (?q # w_written ws))
                  = [t_queued denv, t_started wenv, t_completed wenv]"
    if s: "\<not> prefix (sid @ ''/'') (job_key ?jid)
              \<and> valid (fst (verifyPayment (beta_mode wenv) sp (paymentIntentId b)))
              \<and> field m ''category'' = Some (JStr cat) \<and> cat \<in> set VALID_CATEGORIES
              \<and> field m ''screenshotCount'' = Some (JNum (int n))
              \<and> shots = List.map_filter (fetch_asset st sid) [0..<n] \<and> shots \<noteq> []
              \<and> \<not> falsy (select_prompt (loadPrompt wenv) cat)
              \<and> generate wenv (generation_request wenv cat shots) = Inr blocks"
  proof -
    from s have np: "\<not> prefix (sid @ ''/'') (job_key ?jid)" by blast
    note D = dispatched_store [OF np refl, of st ?q]
    have m1: "blobs ?st1 (meta_key sid) = Some e" using D(1) assms(7) by simp
    have g1: "\<not> get_fails ?st1 (meta_key sid)" using assms(6) by simp
    have sh: "shots = List.map_filter (fetch_asset ?st1 sid) [0..<n]"
      using s D(2) by simp
    have pay: "valid (fst (verifyPayment (beta_mode wenv) sp (paymentIntentId ?b1)))"
      using s by simp
    from s have cat: "field m ''category'' = Some (JStr cat)" "cat \<in> set VALID_CATEGORIES"
      and cnt: "field m ''screenshotCount'' = Some (JNum (int n))"
      and ne: "shots \<noteq> []" and pr: "\<not> falsy (select_prompt (loadPrompt wenv) cat)"
      and gen: "generate wenv (generation_request wenv cat shots) = Inr blocks"
      by blast+
    from worker_run [of ?st1 ?b1 ?jid sid wenv sp e m cat n shots,
           OF c1 _ jid _ assms(4) np pay g1 m1 assms(8) cat nf1 cnt sh]
    obtain ws' where
      run': "background_handler wenv (Some ?b1) ?st1 sp = Inr ws'"
      and key: "blobs (w_store ws') (job_key ?jid) = Some (json_entry (last (w_written ws')))"
      and fin: "shots \<noteq> [] \<and> \<not> falsy (select_prompt (loadPrompt wenv) cat) \<longrightarrow>
                 (\<forall>blocks. generate wenv (generation_request wenv cat shots) = Inr blocks \<longrightarrow>
                     w_written ws' =
                       [processing_record (t_started wenv),
                        complete_record (mint_reportId (random36 wenv))
                          (normalize (concat (map b_text (filter (\<lambda>b. b_type b = ''text'') blocks))))
                          (t_completed wenv)])"
      by auto
    from run run' have same: "ws' = ws" by simp
    from fin ne pr gen have w: "w_written ws =
                       [processing_record (t_started wenv),
                        complete_record (mint_reportId (random36 wenv))
                          (normalize (concat (map b_text (filter (\<lambda>b. b_type b = ''text'') blocks))))
                          (t_completed wenv)]"
      unfolding same by blast
    from key w show ?thesis unfolding same by (simp add: stamps_records)
  qed
  have run2: "background_handler wenv (Some (payload ?fr)) ?st1 sp = Inr ws"
    using run by simp
  from d q qa run2 h sa cases success show ?thesis
    by (intro exI [of _ resp] exI [of _ ?st1] exI [of _ ?fr] exI [of _ ws]) blast
qed

theorem timestamps_recorded_witness:
  "\<exists>resp st1 fr ws.
     generate_report demo_dispatch_env demo_dispatch demo_store = (resp, st1, Some fr)
   \<and> blobs st1 (job_key (mint_id (uuid_random demo_dispatch_env)))
       = Some (json_entry (queued_record 501))
   \<and> background_handler demo_env (Some (payload fr)) st1 demo_stripe = Inr ws
   \<and> w_written ws = [processing_record 1000,
                      complete_record ''LL-4FZYO'' ''<!DOCTYPE html><html></html>'' 2000]
   \<and> blobs (w_store ws) (job_key (mint_id (uuid_random demo_dispatch_env)))
       = Some (json_entry (complete_record ''LL-4FZYO'' ''<!DOCTYPE html><html></html>'' 2000))
   \<and> concat (map stamps (queued_record 501 # w_written ws)) = [501, 1000, 2000]"
proof -
  let ?shot = "\<lparr>base64 = Binary ''JFIF'', shot_mimeType = ''image/png''\<rparr>"
  let ?b = "\<lparr>sessionId = Some demo_sid, paymentIntentId = None, jobId = None\<rparr>"
  let ?blocks = "[\<lparr>b_type = ''text'', b_text = ''Here: <!DOCTYPE html><html></html> Done.''\<rparr>]"
  let ?jid = "mint_id (uuid_random demo_dispatch_env)"
  have live: "\<not> expired (t_check demo_dispatch_env) demo_meta"
    by (simp add: expired_def demo_meta_def demo_dispatch_env_def field_def date_of_def)
  have here: "blobs demo_store (meta_key demo_sid) = Some (json_entry demo_meta)"
    by (simp add: demo_store_def healthy_def meta_key_def asset_key_def)
  have ev: "d_method demo_dispatch = ''POST''" "d_body demo_dispatch = Some ?b"
    "sessionId ?b = Some demo_sid" "demo_sid \<noteq> []"
    by (simp_all add: demo_dispatch_def demo_sid_def)
  have st: "configured demo_store" "\<not> get_fails demo_store (meta_key demo_sid)"
    "\<not> set_fails demo_store (job_key ?jid)"
    by (simp_all add: demo_store_def healthy_def)
  have c: "content (json_entry demo_meta) = Json demo_meta"
    by (simp add: json_entry_def)
  have t: "t_queued demo_dispatch_env = 501" "t_started demo_env = 1000"
    "t_completed demo_env = 2000"
    by (simp_all add: demo_dispatch_env_def demo_env_def)
  have rid: "mint_reportId (random36 demo_env) = ''LL-4FZYO''" by code_simp
  have html: "normalize (concat (map b_text (filter (\<lambda>b. b_type b = ''text'') ?blocks)))
               = ''<!DOCTYPE html><html></html>''"
    by code_simp
  have hyp: "\<not> prefix (demo_sid @ ''/'') (job_key ?jid)
              \<and> valid (fst (verifyPayment (beta_mode demo_env) demo_stripe (paymentIntentId ?b)))
              \<and> field demo_meta ''category'' = Some (JStr ''vehicle'')
              \<and> ''vehicle'' \<in> set VALID_CATEGORIES
              \<and> field demo_meta ''screenshotCount'' = Some (JNum (int 2))
              \<and> [?shot] = List.map_filter (fetch_asset demo_store demo_sid) [0..<2]
              \<and> [?shot] \<noteq> []
              \<and> \<not> falsy (select_prompt (loadPrompt demo_env) ''vehicle'')
              \<and> generate demo_env (generation_request demo_env ''vehicle'' [?shot]) = Inr ?blocks"
  proof (intro conjI)
    show "\<not> prefix (demo_sid @ ''/'') (job_key ?jid)"
      by (simp add: demo_sid_def job_key_def)
    show "valid (fst (verifyPayment (beta_mode demo_env) demo_stripe (paymentIntentId ?b)))"
      by (simp add: demo_env_def verifyPayment_def)
    show "field demo_meta ''category'' = Some (JStr ''vehicle'')"
      and "field demo_meta ''screenshotCount'' = Some (JNum (int 2))"
      by (simp_all add: demo_meta_def field_def)
    show "''vehicle'' \<in> set VALID_CATEGORIES" by (simp add: VALID_CATEGORIES_def)
    show "[?shot] = List.map_filter (fetch_asset demo_store demo_sid) [0..<2]" by code_simp
    show "\<not> falsy (select_prompt (loadPrompt demo_env) ''vehicle'')" by code_simp
    show "generate demo_env (generation_request demo_env ''vehicle'' [?shot]) = Inr ?blocks"
      by (simp add: demo_env_def)
  qed simp
  from timestamps_recorded [OF ev st(1,2) here c live st(3),
         where wenv = demo_env and sp = demo_stripe and cat = "''vehicle''" and n = 2
           and shots = "[?shot]" and blocks = ?blocks]
  obtain resp st1 fr ws where
    d: "generate_report demo_dispatch_env demo_dispatch demo_store = (resp, st1, Some fr)"
    and q: "blobs st1 (job_key ?jid) = Some (json_entry (queued_record (t_queued demo_dispatch_env)))"
    and run: "background_handler demo_env (Some (payload fr)) st1 demo_stripe = Inr ws"
    and fin: "\<not> prefix (demo_sid @ ''/'') (job_key ?jid)
              \<and> valid (fst (verifyPayment (beta_mode demo_env) demo_stripe (paymentIntentId ?b)))
              \<and> field demo_meta ''category'' = Some (JStr ''vehicle'')
              \<and> ''vehicle'' \<in> set VALID_CATEGORIES
              \<and> field demo_meta ''screenshotCount'' = Some (JNum (int 2))
              \<and> [?shot] = List.map_filter (fetch_asset demo_store demo_sid) [0..<2]
              \<and> [?shot] \<noteq> []
              \<and> \<not> falsy (select_prompt (loadPrompt demo_env) ''vehicle'')
              \<and> generate demo_env (generation_request demo_env ''vehicle'' [?shot]) = Inr ?blocks
              \<longrightarrow>
                w_written ws =
                  [processing_record (t_started demo_env),
                   complete_record (mint_reportId (random36 demo_env))
                     (normalize (concat (map b_text (filter (\<lambda>b. b_type b = ''text'') ?blocks))))
                     (t_completed demo_env)]
              \<and> blobs (w_store ws) (job_key ?jid) =
                  Some (json_entry
                    (complete_record (mint_reportId (random36 demo_env))
                       (normalize (concat (map b_text (filter (\<lambda>b. b_type b = ''text'') ?blocks))))
                       (t_completed demo_env)))
              \<and> concat (map stamps (queued_record (t_queued demo_dispatch_env) # w_written ws))
                  = [t_queued demo_dispatch_env, t_started demo_env, t_completed demo_env]"
    by blast
  from fin hyp have
    "w_written ws =
                  [processing_record (t_started demo_env),
                   complete_record (mint_reportId (random36 demo_env))
                     (normalize (concat (map b_text (filter (\<lambda>b. b_type b = ''text'') ?blocks))))
                     (t_completed demo_env)]
              \<and> blobs (w_store ws) (job_key ?jid) =
                  Some (json_entry
                    (complete_record (mint_reportId (random36 demo_env))
                       (normalize (concat (map b_text (filter (\<lambda>b. b_type b = ''text'') ?blocks))))
                       (t_completed demo_env)))
              \<and> concat (map stamps (queued_record (t_queued demo_dispatch_env) # w_written ws))
                  = [t_queued demo_dispatch_env, t_started demo_env, t_completed demo_env]"
    by (rule mp)
  then have r: "w_written ws = [processing_record 1000,
                      complete_record ''LL-4FZYO'' ''<!DOCTYPE html><html></html>'' 2000]
   \<and> blobs (w_store ws) (job_key ?jid)
       = Some (json_entry (complete_record ''LL-4FZYO'' ''<!DOCTYPE html><html></html>'' 2000))
   \<and> concat (map stamps (queued_record 501 # w_written ws)) = [501, 1000, 2000]"
    unfolding rid html t .
  from q have q': "blobs st1 (job_key ?jid) = Some (json_entry (queued_record 501))"
    unfolding t .
  from d q' run r show ?thesis by blast
qed

text \<open>
  Nothing orders the three clock readings. With a dispatcher whose clock reads 5000 at
  the \<^verbatim>\<open>queued\<close> write and a worker whose clock reads 1000 and 2000, the job's records are
  stamped 5000, 1000 and 2000 in the order they were written.
\<close>

theorem timestamps_clock_counterexample:
  "(case generate_report (demo_dispatch_env\<lparr>t_queued := 5000\<rparr>) demo_dispatch demo_store of
      (resp, st1, Some fr) \<Rightarrow>
        (case (blobs st1 (job_key (mint_id (uuid_random demo_dispatch_env))),
               background_handler demo_env (Some (payload fr)) st1 demo_stripe) of
           (Some e, Inr ws) \<Rightarrow>
             (case content e of Json q \<Rightarrow> Some (statusCode resp, q # w_written ws) | _ \<Rightarrow> None)
         | _ \<Rightarrow> None)
    | _ \<Rightarrow> None)
     = Some (202, [queued_record 5000, processing_record 1000,
                   complete_record ''LL-4FZYO'' ''<!DOCTYPE html><html></html>'' 2000])
   \<and> concat (map stamps [queued_record 5000, processing_record 1000,
                           complete_record ''LL-4FZYO'' ''<!DOCTYPE html><html></html>'' 2000])
       = [5000, 1000, 2000]
   \<and> \<not> sorted [5000, 1000, 2000 :: int]"
  by code_simp

end
